theory Spec2Isabelle
  imports Main "HOL-Library.State_Monad" "HOL-Library.Multiset" "HOL-Library.Sublist" "HOL-Library.AList"
begin

section \<open>Post-upgrade tasks of kubeadm (cmd/kubeadm/app/phases/upgrade/postupgrade.go)\<close>

subsection \<open>Errors\<close>

text \<open>
  A Go \<^verbatim>\<open>error\<close> is observed by this file in two ways only: through its message
  (\<^verbatim>\<open>%v\<close> in \<^verbatim>\<open>fmt.Errorf\<close> and \<^verbatim>\<open>fmt.Printf\<close>) and through
  \<^verbatim>\<open>apierrors.IsNotFound\<close>. \<open>ErrorString\<close> is what \<^verbatim>\<open>fmt.Errorf\<close> builds,
  \<open>External nf m\<close> is an error handed back by a collaborator (\<open>nf\<close>: whether
  \<^verbatim>\<open>IsNotFound\<close> holds of it, \<open>m\<close>: its message), \<open>Aggregate\<close> is the value of
  \<^verbatim>\<open>errors.NewAggregate\<close>. A nil error is \<open>None\<close> of \<open>error option\<close>.
\<close>

datatype error = ErrorString string | External bool string | Aggregate "error list"

text \<open>
  Modelled from the spec: the package \<^verbatim>\<open>k8s.io/apimachinery/pkg/util/errors\<close> is not
  among the sources. The spec says of the aggregate: "returns nil if the aggregate is empty,
  otherwise a single error describing all accumulated failures in order". The description
  is the one of the library: the message alone for one error, and
  \<^verbatim>\<open>[m1, m2, ...]\<close> for several.
\<close>

fun aggregate_Error :: "string list \<Rightarrow> string" where
  "aggregate_Error [] = ''''"
| "aggregate_Error [m] = m"
| "aggregate_Error (m # ms) = ''['' @ m @ concat (map (\<lambda>x. '', '' @ x) ms) @ '']''"

fun Error :: "error \<Rightarrow> string" where
  "Error (ErrorString s) = s"
| "Error (External nf s) = s"
| "Error (Aggregate es) = aggregate_Error (map Error es)"

definition NewAggregate :: "error list \<Rightarrow> error option" where
  "NewAggregate errlist = (if errlist = [] then None else Some (Aggregate errlist))"

fun IsNotFound :: "error \<Rightarrow> bool" where
  "IsNotFound (External nf s) = nf"
| "IsNotFound (ErrorString s) = False"
| "IsNotFound (Aggregate es) = False"

text \<open>\<^verbatim>\<open>fmt.Errorf(format + "%v", err)\<close>.\<close>

definition Errorf :: "string \<Rightarrow> error \<Rightarrow> error" where
  "Errorf format err = ErrorString (format @ Error err)"

text \<open>
  \<^verbatim>\<open>if err != nil { errs = append(errs, err) }\<close>, the statement that follows nearly
  every step of the orchestrator.
\<close>

fun appendErr :: "error list \<Rightarrow> error option \<Rightarrow> error list" where
  "appendErr errs None = errs"
| "appendErr errs (Some err) = errs @ [err]"

subsection \<open>Time\<close>

text \<open>
  A \<^verbatim>\<open>time.Time\<close> is a number of nanoseconds on the wall clock, a
  \<^verbatim>\<open>time.Duration\<close> is an \<^verbatim>\<open>int64\<close> of nanoseconds, and
  \<^verbatim>\<open>Time.Sub\<close> saturates at the least and the greatest duration.
\<close>

type_synonym Time = int
type_synonym Duration = int

definition Nanosecond :: Duration where "Nanosecond = 1"
definition Second :: Duration where "Second = 1000000000 * Nanosecond"
definition Minute :: Duration where "Minute = 60 * Second"
definition Hour :: Duration where "Hour = 60 * Minute"

definition maxDuration :: Duration where "maxDuration = 2 ^ 63 - 1"
definition minDuration :: Duration where "minDuration = - (2 ^ 63)"

definition Sub :: "Time \<Rightarrow> Time \<Rightarrow> Duration" where
  "Sub t u =
     (let d = t - u
      in if d > maxDuration then maxDuration else if d < minDuration then minDuration else d)"

text \<open>\<^verbatim>\<open>var expiry = 180 * 24 * time.Hour\<close>\<close>

definition expiry :: Duration where
  "expiry = 180 * 24 * Hour"

subsection \<open>Data\<close>

record Certificate =
  NotBefore :: Time
  NotAfter :: Time

text \<open>
  Modelled from the spec: the type of a deployment and of its status (package
  \<^verbatim>\<open>k8s.io/api/apps/v1\<close>) is not among the sources. The spec: "DeploymentReadiness:
  transient observation (ready-replica count) of a named cluster deployment". The one field
  that is read, \<^verbatim>\<open>Status.ReadyReplicas\<close>, is that count: the API declares it as a
  32-bit integer and reports the number of ready replicas in it, never a negative number.
  A count is a natural number here.
\<close>

record Deployment =
  ReadyReplicas :: nat

record MasterConfiguration =
  NodeRegistration_Name :: string
  NodeRegistration_CRISocket :: string
  FeatureGates :: "string \<rightharpoonup> bool"

text \<open>
  \<^verbatim>\<open>dryrunutil.NewWaiter()\<close> and
  \<^verbatim>\<open>apiclient.NewKubeWaiter(client, timeout, os.Stdout)\<close>.
\<close>

datatype Waiter = DryRunWaiter | KubeWaiter Duration

text \<open>
  Modelled from the spec: the package \<^verbatim>\<open>kubeadmconstants\<close> is not among the
  sources. Of the names of the two DNS deployments the spec says: "exactly the two
  legacy/new values, never the same value twice". \<open>KubeDNS\<close> is the legacy value and
  \<open>CoreDNS\<close> the new one, two different names.
\<close>

definition KubeDNS :: string where
  "KubeDNS = ''kube-dns''"

definition CoreDNS :: string where
  "CoreDNS = ''coredns''"

text \<open>
  The other constants and the pure helpers of the packages that are not among the sources
  (\<^verbatim>\<open>kubeadmconstants\<close>, \<^verbatim>\<open>features\<close>, \<^verbatim>\<open>metav1\<close>,
  \<^verbatim>\<open>kubeadmapiv1alpha2\<close>) are parameters of the model: what is proved holds for
  every value of them.
\<close>

record constants =
  APIServerCertName :: string
  APIServerKeyName :: string
  KubeletRunDirectory :: string
  KubernetesDir :: string
  GetStaticPodDirectory :: string
  DefaultCertificatesDir :: string
  NamespaceSystem :: string
  features_CoreDNS :: string
  features_SelfHosting :: string
  features_Enabled :: "(string \<rightharpoonup> bool) \<Rightarrow> string \<Rightarrow> bool"

subsection \<open>The world outside\<close>

text \<open>
  Every operation of the file that leaves it (a collaborator of kubeadm, the cluster API,
  the filesystem, the clock, the standard output) is a \<open>call\<close>. The cluster handle
  \<^verbatim>\<open>client\<close> and the configuration \<^verbatim>\<open>cfg\<close> are the same in every call of a run
  and are left out of the record of a call.
\<close>

datatype call =
    UploadConfiguration
  | CreateConfigMap
  | TempDir string string
  | DownloadConfig string string
  | AnnotateCRISocket string string
  | AllowBootstrapTokensToPostCSRs
  | AutoApproveNodeBootstrapTokens
  | AutoApproveNodeCertificateRotation
  | IsControlPlaneSelfHosted
  | CreateSelfHostedControlPlane string string Waiter bool
  | CreateClusterInfoRBACRules
  | CertsFromFile string
  | Now
  | Mkdir string nat
  | Rename string string
  | CreateAPIServerCertAndKeyFiles
  | EnsureDNSAddon
  | GetDeployment string string
  | DeleteDeploymentForeground string string
  | EnsureProxyAddon
  | Printf string
  | Println string

text \<open>
  The state of a run is the list of the calls made so far, oldest first. What a call
  returns is decided by the environment from that history and the call, so that an
  environment is any deterministic world: one whose answers depend on everything that was
  done to it before. \<open>initial_dirs\<close> are the directories that exist before the first
  call. \<open>range_rank\<close> decides the order in which a \<^verbatim>\<open>range\<close> loop visits the
  entries of a Go map, which the language leaves open: the entries are visited by
  increasing rank of their keys, the rank being any function of the key and of the moment.
\<close>

type_synonym world = "call list"

record env =
  kubeadmconstants :: constants
  returns_error :: "world \<Rightarrow> call \<Rightarrow> error option"
  returns_dir :: "world \<Rightarrow> call \<Rightarrow> error + string"
  returns_deployment :: "world \<Rightarrow> call \<Rightarrow> error + Deployment"
  returns_certs :: "world \<Rightarrow> call \<Rightarrow> error + Certificate list"
  returns_time :: "world \<Rightarrow> Time"
  returns_bool :: "world \<Rightarrow> call \<Rightarrow> bool"
  initial_dirs :: "string set"
  range_rank :: "world \<Rightarrow> string \<Rightarrow> nat"

definition range_entries :: "env \<Rightarrow> world \<Rightarrow> (string \<times> string) list \<Rightarrow> (string \<times> string) list" where
  "range_entries e h m = sort_key (\<lambda>(k, v). range_rank e h k) m"

text \<open>A call that returns an \<^verbatim>\<open>error\<close>.\<close>

definition invoke :: "env \<Rightarrow> call \<Rightarrow> (world, error option) state" where
  "invoke e c = State (\<lambda>h. (returns_error e h c, h @ [c]))"

text \<open>\<^verbatim>\<open>fmt.Printf\<close> and \<^verbatim>\<open>fmt.Println\<close>: a call with no result.\<close>

definition emit :: "call \<Rightarrow> (world, unit) state" where
  "emit c = State (\<lambda>h. ((), h @ [c]))"

definition ioutil_TempDir :: "env \<Rightarrow> string \<Rightarrow> string \<Rightarrow> (world, error + string) state" where
  "ioutil_TempDir e dir pre = State (\<lambda>h. (returns_dir e h (TempDir dir pre), h @ [TempDir dir pre]))"

definition certutil_CertsFromFile :: "env \<Rightarrow> string \<Rightarrow> (world, error + Certificate list) state" where
  "certutil_CertsFromFile e path =
     State (\<lambda>h. (returns_certs e h (CertsFromFile path), h @ [CertsFromFile path]))"

definition time_Now :: "env \<Rightarrow> (world, Time) state" where
  "time_Now e = State (\<lambda>h. (returns_time e h, h @ [Now]))"

definition Deployments_Get :: "env \<Rightarrow> string \<Rightarrow> string \<Rightarrow> (world, error + Deployment) state" where
  "Deployments_Get e ns name =
     State (\<lambda>h. (returns_deployment e h (GetDeployment ns name), h @ [GetDeployment ns name]))"

text \<open>
  Modelled from the spec: \<^verbatim>\<open>IsControlPlaneSelfHosted\<close> (package
  \<^verbatim>\<open>upgrade\<close>) and \<^verbatim>\<open>selfhosting.CreateSelfHostedControlPlane\<close> (the
  converter) are not among the sources. The spec calls the first "an idempotency check
  against current cluster state" and says that the converter is invoked "at most once
  (idempotency via the self-hosted state check)". So the control plane is self-hosted when
  the cluster reports it (\<open>returns_bool\<close>) or when a call of the converter has succeeded
  earlier in the history. \<open>converted\<close> reads the history newest call first.
\<close>

fun is_convert :: "call \<Rightarrow> bool" where
  "is_convert (CreateSelfHostedControlPlane dir kdir w d) = True"
| "is_convert c = False"

fun converted :: "env \<Rightarrow> call list \<Rightarrow> bool" where
  "converted e [] = False"
| "converted e (c # older) =
     (converted e older \<or> (is_convert c \<and> returns_error e (rev older) c = None))"

definition self_hosted :: "env \<Rightarrow> world \<Rightarrow> bool" where
  "self_hosted e h = (returns_bool e h IsControlPlaneSelfHosted \<or> converted e (rev h))"

definition IsControlPlaneSelfHosted_call :: "env \<Rightarrow> (world, bool) state" where
  "IsControlPlaneSelfHosted_call e =
     State (\<lambda>h. (self_hosted e h, h @ [IsControlPlaneSelfHosted]))"

text \<open>
  \<^verbatim>\<open>os.Mkdir\<close> belongs to the Go library and the operating system: it fails on a
  path that exists already, and may fail for any other reason, which is left to the
  environment. A directory exists when it is among \<open>initial_dirs\<close> or when an earlier
  \<^verbatim>\<open>os.Mkdir\<close> of it has succeeded: no call of this file removes a directory.
  \<open>dir_exists\<close> reads the history newest call first.
\<close>

fun dir_exists :: "env \<Rightarrow> call list \<Rightarrow> string \<Rightarrow> bool" where
  "dir_exists e [] p = (p \<in> initial_dirs e)"
| "dir_exists e (c # older) p =
     (dir_exists e older p \<or>
      (case c of Mkdir q m \<Rightarrow> q = p \<and> returns_error e (rev older) c = None | _ \<Rightarrow> False))"

definition os_Mkdir :: "env \<Rightarrow> string \<Rightarrow> nat \<Rightarrow> (world, error option) state" where
  "os_Mkdir e p m =
     State (\<lambda>h. (if dir_exists e (rev h) p
                  then Some (External False (''mkdir '' @ p @ '': file exists''))
                  else returns_error e h (Mkdir p m),
                 h @ [Mkdir p m]))"

text \<open>\<^verbatim>\<open>filepath.Join(dir, name)\<close> on a clean directory path and a file name.\<close>

definition filepath_Join :: "string \<Rightarrow> string \<Rightarrow> string" where
  "filepath_Join dir name = dir @ ''/'' @ name"

text \<open>
  \<^verbatim>\<open>%v\<close> of a \<^verbatim>\<open>map[string]string\<close> and of an error value that may be nil.
  A Go map is the list of its entries, with distinct keys; \<open>AList.update\<close> is the
  assignment \<^verbatim>\<open>m[k] = v\<close>. The entries are printed in the order of the list;
  nothing that is proved depends on that order.
\<close>

fun join_space :: "string list \<Rightarrow> string" where
  "join_space [] = ''''"
| "join_space [x] = x"
| "join_space (x # xs) = x @ '' '' @ join_space xs"

definition fmt_map :: "(string \<times> string) list \<Rightarrow> string" where
  "fmt_map m = ''map['' @ join_space (map (\<lambda>(k, v). k @ '':'' @ v) m) @ '']''"

fun fmt_error :: "error option \<Rightarrow> string" where
  "fmt_error None = ''<nil>''"
| "fmt_error (Some err) = Error err"

subsection \<open>Moving files and rolling back (lines 224-245)\<close>

text \<open>
  \<^verbatim>\<open>rollbackFiles\<close>: the loop over \<^verbatim>\<open>files\<close>, then the error that is returned.
\<close>

fun rollbackFiles_loop ::
  "env \<Rightarrow> (string \<times> string) list \<Rightarrow> error list \<Rightarrow> (world, error list) state" where
  "rollbackFiles_loop e [] errs = State_Monad.return errs"
| "rollbackFiles_loop e ((from, to) # rest) errs = do {
     err \<leftarrow> invoke e (Rename from to);
     rollbackFiles_loop e rest (appendErr errs err)
   }"

definition rollbackFiles :: "env \<Rightarrow> (string \<times> string) list \<Rightarrow> error \<Rightarrow> (world, error) state" where
  "rollbackFiles e files originalErr = do {
     h \<leftarrow> State_Monad.get;
     errs \<leftarrow> rollbackFiles_loop e (range_entries e h files) [originalErr];
     State_Monad.return (ErrorString (''couldn't move these files: '' @ fmt_map files @
        ''. Got errors: '' @ fmt_error (NewAggregate errs)))
   }"

text \<open>\<^verbatim>\<open>moveFiles\<close>: the loop carries \<^verbatim>\<open>filesToRecover\<close>.\<close>

fun moveFiles_loop ::
  "env \<Rightarrow> (string \<times> string) list \<Rightarrow> (string \<times> string) list \<Rightarrow> (world, error option) state" where
  "moveFiles_loop e [] filesToRecover = State_Monad.return None"
| "moveFiles_loop e ((from, to) # rest) filesToRecover = do {
     err \<leftarrow> invoke e (Rename from to);
     case err of
       Some er \<Rightarrow> do {
         r \<leftarrow> rollbackFiles e filesToRecover er;
         State_Monad.return (Some r)
       }
     | None \<Rightarrow> moveFiles_loop e rest (AList.update to from filesToRecover)
   }"

definition moveFiles :: "env \<Rightarrow> (string \<times> string) list \<Rightarrow> (world, error option) state" where
  "moveFiles e files = do {
     h \<leftarrow> State_Monad.get;
     moveFiles_loop e (range_entries e h files) []
   }"

subsection \<open>Backing up the certificate and key of the API server (lines 210-222, 247-263)\<close>

text \<open>The permission bits \<^verbatim>\<open>0766\<close> are octal.\<close>

definition backupAPIServerCertAndKey :: "env \<Rightarrow> string \<Rightarrow> (world, error option) state" where
  "backupAPIServerCertAndKey e certAndKeyDir = do {
     let subDir = filepath_Join certAndKeyDir ''expired'';
     err \<leftarrow> os_Mkdir e subDir (7 * 64 + 6 * 8 + 6);
     case err of
       Some er \<Rightarrow> State_Monad.return (Some (ErrorString
         (''failed to created backup directory '' @ subDir @ '': '' @ Error er)))
     | None \<Rightarrow> do {
         let filesToMove =
           AList.update
             (filepath_Join certAndKeyDir (APIServerKeyName (kubeadmconstants e)))
             (filepath_Join subDir (APIServerKeyName (kubeadmconstants e)))
             (AList.update
               (filepath_Join certAndKeyDir (APIServerCertName (kubeadmconstants e)))
               (filepath_Join subDir (APIServerCertName (kubeadmconstants e)))
               []);
         moveFiles e filesToMove
       }
   }"

definition shouldBackupAPIServerCertAndKey :: "env \<Rightarrow> string \<Rightarrow> (world, error + bool) state" where
  "shouldBackupAPIServerCertAndKey e certAndKeyDir = do {
     let apiServerCert = filepath_Join certAndKeyDir (APIServerCertName (kubeadmconstants e));
     r \<leftarrow> certutil_CertsFromFile e apiServerCert;
     case r of
       Inl err \<Rightarrow> State_Monad.return (Inl (ErrorString
         (''couldn't load the certificate file '' @ apiServerCert @ '': '' @ Error err)))
     | Inr certs \<Rightarrow>
         if length certs = 0 then
           State_Monad.return (Inl (ErrorString ''no certificate data found''))
         else do {
           now \<leftarrow> time_Now e;
           if Sub now (NotBefore (certs ! 0)) > expiry then State_Monad.return (Inr True)
           else State_Monad.return (Inr False)
         }
   }"

subsection \<open>Removing the DNS deployment that is no longer used (lines 154-176)\<close>

text \<open>The first lines of the closure: which deployment is installed, which is deleted.\<close>

definition dnsDeploymentNames :: "constants \<Rightarrow> MasterConfiguration \<Rightarrow> string \<times> string" where
  "dnsDeploymentNames k cfg =
     (let installedDeploymentName = KubeDNS;
          deploymentToDelete = CoreDNS
      in if features_Enabled k (FeatureGates cfg) (features_CoreDNS k)
         then (CoreDNS, KubeDNS)
         else (installedDeploymentName, deploymentToDelete))"

text \<open>The closure passed to \<^verbatim>\<open>apiclient.TryRunCommand\<close>: one attempt.\<close>

definition removeOldDNSDeployment_attempt ::
  "env \<Rightarrow> MasterConfiguration \<Rightarrow> (world, error option) state" where
  "removeOldDNSDeployment_attempt e cfg = do {
     let (installedDeploymentName, deploymentToDelete) =
       dnsDeploymentNames (kubeadmconstants e) cfg;
     r \<leftarrow> Deployments_Get e (NamespaceSystem (kubeadmconstants e)) installedDeploymentName;
     case r of
       Inl err \<Rightarrow> State_Monad.return (Some err)
     | Inr dnsDeployment \<Rightarrow>
         if ReadyReplicas dnsDeployment = 0 then
           State_Monad.return (Some (ErrorString ''the DNS deployment isn't ready yet''))
         else do {
           err \<leftarrow> invoke e
             (DeleteDeploymentForeground (NamespaceSystem (kubeadmconstants e)) deploymentToDelete);
           case err of
             None \<Rightarrow> State_Monad.return None
           | Some er \<Rightarrow>
               if \<not> IsNotFound er then State_Monad.return (Some er)
               else State_Monad.return None
         }
   }"

text \<open>
  Modelled from the spec: \<^verbatim>\<open>apiclient.TryRunCommand\<close> is not among the sources. The
  spec (RetryingCommand): "Invokes op up to maxAttempts times with a fixed inter-attempt
  pause; returns success on the first success, or the last observed error once attempts
  are exhausted." The pause is real time and leaves no mark here; with no attempt allowed
  nothing is observed and nothing is returned.
\<close>

fun TryRunCommand :: "(world, error option) state \<Rightarrow> nat \<Rightarrow> (world, error option) state" where
  "TryRunCommand f 0 = State_Monad.return None"
| "TryRunCommand f (Suc n) = do {
     err \<leftarrow> f;
     case err of
       None \<Rightarrow> State_Monad.return None
     | Some er \<Rightarrow> if n = 0 then State_Monad.return (Some er) else TryRunCommand f n
   }"

definition removeOldDNSDeploymentIfAnotherDNSIsUsed ::
  "env \<Rightarrow> MasterConfiguration \<Rightarrow> (world, error option) state" where
  "removeOldDNSDeploymentIfAnotherDNSIsUsed e cfg =
     TryRunCommand (removeOldDNSDeployment_attempt e cfg) 10"

subsection \<open>Self-hosting (lines 178-199) and the kubelet directory (lines 201-208)\<close>

definition getWaiter :: "bool \<Rightarrow> Waiter" where
  "getWaiter dryRun = (if dryRun then DryRunWaiter else KubeWaiter (30 * Minute))"

definition upgradeToSelfHosting ::
  "env \<Rightarrow> MasterConfiguration \<Rightarrow> bool \<Rightarrow> (world, error option) state" where
  "upgradeToSelfHosting e cfg dryRun =
     (if features_Enabled (kubeadmconstants e) (FeatureGates cfg)
           (features_SelfHosting (kubeadmconstants e))
      then do {
        selfHosted \<leftarrow> IsControlPlaneSelfHosted_call e;
        if \<not> selfHosted then do {
          let waiter = getWaiter dryRun;
          _ \<leftarrow> emit (Println ''[self-hosted] Creating self-hosted control plane.'');
          err \<leftarrow> invoke e (CreateSelfHostedControlPlane
            (GetStaticPodDirectory (kubeadmconstants e)) (KubernetesDir (kubeadmconstants e))
            waiter dryRun);
          case err of
            Some er \<Rightarrow> State_Monad.return
              (Some (Errorf ''error creating self hosted control plane: '' er))
          | None \<Rightarrow> State_Monad.return None
        } else State_Monad.return None
      } else State_Monad.return None)"

definition getKubeletDir :: "env \<Rightarrow> bool \<Rightarrow> (world, error + string) state" where
  "getKubeletDir e dryRun =
     (if dryRun then ioutil_TempDir e '''' ''kubeadm-upgrade-dryrun''
      else State_Monad.return (Inr (KubeletRunDirectory (kubeadmconstants e))))"

subsection \<open>The orchestrator (lines 53-152)\<close>

text \<open>
  Two blocks of \<^verbatim>\<open>PerformPostUpgradeTasks\<close> are defined on their own, each taking
  the slice \<^verbatim>\<open>errs\<close> as it stands and returning it as the block leaves it: lines
  68-82 (the kubelet directory and the download of the kubelet configuration) and lines
  121-135 (the backup and renewal of the certificate of the API server).
\<close>

definition kubeletConfigSteps ::
  "env \<Rightarrow> string \<Rightarrow> bool \<Rightarrow> error list \<Rightarrow> (world, error list) state" where
  "kubeletConfigSteps e newK8sVer dryRun errs = do {
     r \<leftarrow> getKubeletDir e dryRun;
     case r of
       Inr kubeletDir \<Rightarrow> do {
         err \<leftarrow> invoke e (DownloadConfig newK8sVer kubeletDir);
         case err of
           Some er \<Rightarrow>
             if \<not> (IsNotFound er \<and> dryRun) then
               State_Monad.return (errs @
                 [Errorf ''error downloading kubelet configuration from the ConfigMap: '' er])
             else State_Monad.return errs
         | None \<Rightarrow> State_Monad.return errs
       }
     | Inl err \<Rightarrow> State_Monad.return (errs @ [err])
   }"

definition apiServerCertSteps ::
  "env \<Rightarrow> MasterConfiguration \<Rightarrow> error list \<Rightarrow> (world, error list) state" where
  "apiServerCertSteps e cfg errs = do {
     let certAndKeyDir = DefaultCertificatesDir (kubeadmconstants e);
     r \<leftarrow> shouldBackupAPIServerCertAndKey e certAndKeyDir;
     case r of
       Inl err \<Rightarrow> do {
         _ \<leftarrow> emit (Printf
           (''[postupgrade] WARNING: failed to determine to backup kube-apiserver cert and key: ''
             @ Error err));
         State_Monad.return errs
       }
     | Inr shouldBackup \<Rightarrow>
         if shouldBackup then do {
           err \<leftarrow> backupAPIServerCertAndKey e certAndKeyDir;
           _ \<leftarrow> (case err of
                  Some er \<Rightarrow> emit (Printf
                    (''[postupgrade] WARNING: failed to backup kube-apiserver cert and key: ''
                      @ Error er))
                | None \<Rightarrow> State_Monad.return ());
           err \<leftarrow> invoke e CreateAPIServerCertAndKeyFiles;
           State_Monad.return (appendErr errs err)
         }
         else State_Monad.return errs
   }"

text \<open>
  The body of \<^verbatim>\<open>PerformPostUpgradeTasks\<close> up to its last line: it returns the slice
  \<^verbatim>\<open>errs\<close>. The last line turns the slice into the error that is returned.
\<close>

definition PerformPostUpgradeTasks_errs ::
  "env \<Rightarrow> MasterConfiguration \<Rightarrow> string \<Rightarrow> bool \<Rightarrow> (world, error list) state" where
  "PerformPostUpgradeTasks_errs e cfg newK8sVer dryRun = do {
     let errs = [];
     err \<leftarrow> invoke e UploadConfiguration;
     let errs = appendErr errs err;
     err \<leftarrow> invoke e CreateConfigMap;
     let errs = appendErr errs
       (map_option (Errorf ''error creating kubelet configuration ConfigMap: '') err);
     errs \<leftarrow> kubeletConfigSteps e newK8sVer dryRun errs;
     err \<leftarrow> invoke e
       (AnnotateCRISocket (NodeRegistration_Name cfg) (NodeRegistration_CRISocket cfg));
     let errs = appendErr errs (map_option (Errorf ''error uploading crisocket: '') err);
     err \<leftarrow> invoke e AllowBootstrapTokensToPostCSRs;
     let errs = appendErr errs err;
     err \<leftarrow> invoke e AutoApproveNodeBootstrapTokens;
     let errs = appendErr errs err;
     err \<leftarrow> invoke e AutoApproveNodeCertificateRotation;
     let errs = appendErr errs err;
     err \<leftarrow> upgradeToSelfHosting e cfg dryRun;
     let errs = appendErr errs err;
     err \<leftarrow> invoke e CreateClusterInfoRBACRules;
     let errs = appendErr errs err;
     errs \<leftarrow> apiServerCertSteps e cfg errs;
     err \<leftarrow> invoke e EnsureDNSAddon;
     let errs = appendErr errs err;
     errs \<leftarrow> (if \<not> dryRun then do {
                 err \<leftarrow> removeOldDNSDeploymentIfAnotherDNSIsUsed e cfg;
                 State_Monad.return (appendErr errs err)
               } else State_Monad.return errs);
     err \<leftarrow> invoke e EnsureProxyAddon;
     let errs = appendErr errs err;
     State_Monad.return errs
   }"

definition PerformPostUpgradeTasks ::
  "env \<Rightarrow> MasterConfiguration \<Rightarrow> string \<Rightarrow> bool \<Rightarrow> (world, error option) state" where
  "PerformPostUpgradeTasks e cfg newK8sVer dryRun = do {
     errs \<leftarrow> PerformPostUpgradeTasks_errs e cfg newK8sVer dryRun;
     State_Monad.return (NewAggregate errs)
   }"

subsection \<open>A concrete world\<close>

text \<open>
  Values for the parameters, to run the model on: the names and paths that kubeadm uses, a
  reading of the feature gates in which a gate that is not set is disabled, and an
  environment in which every call succeeds, the certificate of the API server was issued at
  time 0, and the clock and the answer of the cluster to the self-hosting check are given.
  Nothing that is proved for every world depends on these values.
\<close>

definition kubeadm_constants :: constants where
  "kubeadm_constants = \<lparr>
     APIServerCertName = ''apiserver.crt'', APIServerKeyName = ''apiserver.key'',
     KubeletRunDirectory = ''/var/lib/kubelet'', KubernetesDir = ''/etc/kubernetes'',
     GetStaticPodDirectory = ''/etc/kubernetes/manifests'',
     DefaultCertificatesDir = ''/etc/kubernetes/pki'',
     NamespaceSystem = ''kube-system'',
     features_CoreDNS = ''CoreDNS'', features_SelfHosting = ''SelfHosting'',
     features_Enabled = (\<lambda>gates f. case gates f of Some b \<Rightarrow> b | None \<Rightarrow> False) \<rparr>"

definition quiet_env :: "Time \<Rightarrow> bool \<Rightarrow> env" where
  "quiet_env now selfHosted = \<lparr>
     kubeadmconstants = kubeadm_constants,
     returns_error = (\<lambda>h c. None),
     returns_dir = (\<lambda>h c. Inr ''/tmp/kubeadm-upgrade-dryrun0''),
     returns_deployment = (\<lambda>h c. Inr \<lparr> ReadyReplicas = 1 \<rparr>),
     returns_certs = (\<lambda>h c. Inr [\<lparr> NotBefore = 0, NotAfter = 365 * 24 * Hour \<rparr>]),
     returns_time = (\<lambda>h. now),
     returns_bool = (\<lambda>h c. selfHosted),
     initial_dirs = {},
     range_rank = (\<lambda>h k. 0) \<rparr>"

definition cfg0 :: MasterConfiguration where
  "cfg0 = \<lparr> NodeRegistration_Name = ''master'',
            NodeRegistration_CRISocket = ''/var/run/dockershim.sock'',
            FeatureGates = Map.empty \<rparr>"



subsection \<open>Reading a history\<close>

fun is_delete :: "call \<Rightarrow> bool" where
  "is_delete (DeleteDeploymentForeground ns n) = True"
| "is_delete c = False"

text \<open>
  The steps that \<^verbatim>\<open>PerformPostUpgradeTasks\<close> runs whatever happened before them,
  and what it appends to \<^verbatim>\<open>errs\<close> when one of them fails.
\<close>

fun is_step :: "call \<Rightarrow> bool" where
  "is_step UploadConfiguration = True"
| "is_step CreateConfigMap = True"
| "is_step (AnnotateCRISocket name socket) = True"
| "is_step AllowBootstrapTokensToPostCSRs = True"
| "is_step AutoApproveNodeBootstrapTokens = True"
| "is_step AutoApproveNodeCertificateRotation = True"
| "is_step CreateClusterInfoRBACRules = True"
| "is_step EnsureDNSAddon = True"
| "is_step EnsureProxyAddon = True"
| "is_step c = False"

fun step_error :: "call \<Rightarrow> error \<Rightarrow> error" where
  "step_error CreateConfigMap err = Errorf ''error creating kubelet configuration ConfigMap: '' err"
| "step_error (AnnotateCRISocket name socket) err = Errorf ''error uploading crisocket: '' err"
| "step_error c err = err"

fun errlist :: "error option \<Rightarrow> error list" where
  "errlist None = []"
| "errlist (Some err) = [err]"

text \<open>
  The failures of the steps among the calls \<open>t\<close> made after the history \<open>h\<close>, in the
  order of the calls, each as the orchestrator reports it.
\<close>

fun step_failures :: "env \<Rightarrow> world \<Rightarrow> call list \<Rightarrow> error list" where
  "step_failures e h [] = []"
| "step_failures e h (c # t) =
     (if is_step c then errlist (map_option (step_error c) (returns_error e h c)) else [])
     @ step_failures e (h @ [c]) t"

text \<open>
  The errors of the calls \<open>t\<close> made after the history \<open>h\<close>, in the order of the calls.
\<close>

fun errors_of :: "env \<Rightarrow> world \<Rightarrow> call list \<Rightarrow> error list" where
  "errors_of e h [] = []"
| "errors_of e h (c # t) = errlist (returns_error e h c) @ errors_of e (h @ [c]) t"


fun is_dns :: "call \<Rightarrow> bool" where
  "is_dns (GetDeployment ns n) = True"
| "is_dns (DeleteDeploymentForeground ns n) = True"
| "is_dns c = False"

fun is_rename :: "call \<Rightarrow> bool" where
  "is_rename (Rename a b) = True"
| "is_rename c = False"

fun is_fs :: "call \<Rightarrow> bool" where
  "is_fs (Rename a b) = True"
| "is_fs (Mkdir p m) = True"
| "is_fs c = False"

text \<open>A computation that only adds calls of one kind to the history.\<close>

definition only_calls :: "(call \<Rightarrow> bool) \<Rightarrow> (world, 'a) state \<Rightarrow> bool" where
  "only_calls P m = (\<forall>h. \<exists>t. snd (run_state m h) = h @ t \<and> list_all P t)"

text \<open>
  The orchestrator as a chain of steps, each taking \<^verbatim>\<open>errs\<close> and returning it:
  a step that is one call (\<open>simple_step\<close>), a step that is one of the functions of the
  file (\<open>after_step\<close>), and one step after another (\<open>then_steps\<close>). \<open>reports\<close> says
  of such a step which of the unconditional steps it runs, and that it only appends to
  \<^verbatim>\<open>errs\<close>, among other errors every failure of those steps, in their order.
\<close>

definition simple_step ::
  "env \<Rightarrow> (error \<Rightarrow> error) \<Rightarrow> call \<Rightarrow> error list \<Rightarrow> (world, error list) state" where
  "simple_step e wrap c errs = do {
     err \<leftarrow> invoke e c;
     State_Monad.return (appendErr errs (map_option wrap err))
   }"

definition after_step ::
  "(world, error option) state \<Rightarrow> error list \<Rightarrow> (world, error list) state" where
  "after_step m errs = do {
     err \<leftarrow> m;
     State_Monad.return (appendErr errs err)
   }"

definition then_steps ::
  "(error list \<Rightarrow> (world, error list) state) \<Rightarrow> (error list \<Rightarrow> (world, error list) state)
    \<Rightarrow> error list \<Rightarrow> (world, error list) state" where
  "then_steps m1 m2 errs = State_Monad.bind (m1 errs) m2"

definition reports ::
  "env \<Rightarrow> call list \<Rightarrow> (error list \<Rightarrow> (world, error list) state) \<Rightarrow> bool" where
  "reports e cs m =
     (\<forall>errs h. \<exists>new t. run_state (m errs) h = (errs @ new, h @ t)
        \<and> filter is_step t = cs \<and> subseq (step_failures e h t) new)"


text \<open>
  Two more worlds: one in which the certificate file cannot be read, and one in which the
  certificate is old enough to be backed up (the clock stands at 181 days) and the directory
  of the backups exists already.
\<close>

definition unreadable_env :: env where
  "unreadable_env =
     (quiet_env 0 False)\<lparr> returns_certs := (\<lambda>h c. Inl (External False ''permission denied'')) \<rparr>"

definition expired_exists_env :: env where
  "expired_exists_env =
     (quiet_env (181 * (24 * Hour)) False)\<lparr> initial_dirs := {''/etc/kubernetes/pki/expired''} \<rparr>"

text \<open>The call that renames the first path of a pair to the second.\<close>

definition rename_of :: "string \<times> string \<Rightarrow> call" where
  "rename_of p = Rename (fst p) (snd p)"

text \<open>
  A world in which the renaming of \<open>b\<close> fails, and one in which moving \<open>x\<close> back fails
  as well.
\<close>

definition rename_fails_env :: "call list \<Rightarrow> env" where
  "rename_fails_env bad = (quiet_env 0 False)\<lparr> returns_error := (\<lambda>h c.
     if c \<in> set bad then Some (External False ''permission denied'') else None) \<rparr>"

section \<open>Properties\<close>

subsection \<open>Running the calls\<close>

lemma run_invoke [simp]: "run_state (invoke e c) h = (returns_error e h c, h @ [c])"
  by (simp add: invoke_def)

lemma run_emit [simp]: "run_state (emit c) h = ((), h @ [c])"
  by (simp add: emit_def)

lemma run_TempDir [simp]:
  "run_state (ioutil_TempDir e d p) h = (returns_dir e h (TempDir d p), h @ [TempDir d p])"
  by (simp add: ioutil_TempDir_def)

lemma run_CertsFromFile [simp]:
  "run_state (certutil_CertsFromFile e p) h =
     (returns_certs e h (CertsFromFile p), h @ [CertsFromFile p])"
  by (simp add: certutil_CertsFromFile_def)

lemma run_Now [simp]: "run_state (time_Now e) h = (returns_time e h, h @ [Now])"
  by (simp add: time_Now_def)

lemma run_Get [simp]:
  "run_state (Deployments_Get e ns n) h =
     (returns_deployment e h (GetDeployment ns n), h @ [GetDeployment ns n])"
  by (simp add: Deployments_Get_def)

lemma run_IsSelfHosted [simp]:
  "run_state (IsControlPlaneSelfHosted_call e) h =
     (self_hosted e h, h @ [IsControlPlaneSelfHosted])"
  by (simp add: IsControlPlaneSelfHosted_call_def)

subsection \<open>The age of the certificate\<close>

lemma expiry_value: "expiry = 15552000000000000"
  by (simp add: expiry_def Hour_def Minute_def Second_def Nanosecond_def)

text \<open>The saturation of \<^verbatim>\<open>Time.Sub\<close> never changes the comparison with \<open>expiry\<close>.\<close>

lemma Sub_gt_expiry: "(Sub t u > expiry) = (t - u > expiry)"
  by (simp add: Sub_def Let_def expiry_value maxDuration_def minDuration_def)

lemma quiet_env_simps [simp]:
  "kubeadmconstants (quiet_env now sh) = kubeadm_constants"
  "returns_error (quiet_env now sh) = (\<lambda>h c. None)"
  "returns_dir (quiet_env now sh) = (\<lambda>h c. Inr ''/tmp/kubeadm-upgrade-dryrun0'')"
  "returns_deployment (quiet_env now sh) = (\<lambda>h c. Inr \<lparr> ReadyReplicas = 1 \<rparr>)"
  "returns_certs (quiet_env now sh) = (\<lambda>h c. Inr [\<lparr> NotBefore = 0, NotAfter = 365 * 24 * Hour \<rparr>])"
  "returns_time (quiet_env now sh) = (\<lambda>h. now)"
  "returns_bool (quiet_env now sh) = (\<lambda>h c. sh)"
  "initial_dirs (quiet_env now sh) = {}"
  "range_rank (quiet_env now sh) = (\<lambda>h k. 0)"
  by (simp_all add: quiet_env_def)

text \<open>
  C4. \<^verbatim>\<open>shouldBackupAPIServerCertAndKey\<close> returns an error when the certificate file
  cannot be loaded or holds no certificate; otherwise it returns true exactly when more than
  180 days have passed between \<^verbatim>\<open>NotBefore\<close> of the first certificate and the time
  read from the clock. With the certificate issued at time 0, the clock at 181 days gives
  true and the clock at 179 days gives false.
\<close>

theorem shouldBackup_after_180_days:
  "fst (run_state (shouldBackupAPIServerCertAndKey e dir) h) =
     (let path = filepath_Join dir (APIServerCertName (kubeadmconstants e)) in
      case returns_certs e h (CertsFromFile path) of
        Inl err \<Rightarrow>
          Inl (ErrorString (''couldn't load the certificate file '' @ path @ '': '' @ Error err))
      | Inr [] \<Rightarrow> Inl (ErrorString ''no certificate data found'')
      | Inr (c # cs) \<Rightarrow>
          Inr (returns_time e (h @ [CertsFromFile path]) - NotBefore c > 180 * (24 * Hour)))
   \<and> fst (run_state (shouldBackupAPIServerCertAndKey (quiet_env (181 * (24 * Hour)) sh) dir) h)
       = Inr True
   \<and> fst (run_state (shouldBackupAPIServerCertAndKey (quiet_env (179 * (24 * Hour)) sh) dir) h)
       = Inr False"
proof -
  have general: "fst (run_state (shouldBackupAPIServerCertAndKey e dir) h) =
     (let path = filepath_Join dir (APIServerCertName (kubeadmconstants e)) in
      case returns_certs e h (CertsFromFile path) of
        Inl err \<Rightarrow>
          Inl (ErrorString (''couldn't load the certificate file '' @ path @ '': '' @ Error err))
      | Inr [] \<Rightarrow> Inl (ErrorString ''no certificate data found'')
      | Inr (c # cs) \<Rightarrow>
          Inr (returns_time e (h @ [CertsFromFile path]) - NotBefore c > 180 * (24 * Hour)))"
    for e h
    by (simp add: shouldBackupAPIServerCertAndKey_def Let_def Sub_gt_expiry
          split: sum.splits list.splits)
       (simp add: expiry_def)
  have old: "fst (run_state
      (shouldBackupAPIServerCertAndKey (quiet_env (181 * (24 * Hour)) sh) dir) h) = Inr True"
    by (simp add: general Let_def Hour_def Minute_def Second_def Nanosecond_def)
  have young: "fst (run_state
      (shouldBackupAPIServerCertAndKey (quiet_env (179 * (24 * Hour)) sh) dir) h) = Inr False"
    by (simp add: general Let_def Hour_def Minute_def Second_def Nanosecond_def)
  from general old young show ?thesis by blast
qed

subsection \<open>The two DNS deployments\<close>

lemma run_removeOldDNSDeployment_attempt:
  "run_state (removeOldDNSDeployment_attempt e cfg) h =
    (let k = kubeadmconstants e;
         ns = NamespaceSystem k;
         installed = fst (dnsDeploymentNames k cfg);
         stale = snd (dnsDeploymentNames k cfg);
         h1 = h @ [GetDeployment ns installed]
     in case returns_deployment e h (GetDeployment ns installed) of
          Inl err \<Rightarrow> (Some err, h1)
        | Inr d \<Rightarrow>
            if ReadyReplicas d = 0
            then (Some (ErrorString ''the DNS deployment isn't ready yet''), h1)
            else (case returns_error e h1 (DeleteDeploymentForeground ns stale) of
                    None \<Rightarrow> None
                  | Some er \<Rightarrow> if IsNotFound er then None else Some er,
                  h1 @ [DeleteDeploymentForeground ns stale]))"
  by (simp add: Let_def removeOldDNSDeployment_attempt_def split_beta
        split: sum.splits option.splits)

text \<open>
  C6. Whatever the feature gates, the attempt takes the installed deployment and the
  deployment to delete to be the two constants: CoreDNS installed and KubeDNS deleted when
  the CoreDNS gate is enabled, the reverse otherwise. The two names are never equal. The
  status that is fetched is that of the installed one, and the only deployment that can be
  deleted is the other one.
\<close>

theorem dns_names_are_the_two_constants:
  "(let k = kubeadmconstants e;
        names = dnsDeploymentNames k cfg
    in names = (if features_Enabled k (FeatureGates cfg) (features_CoreDNS k)
                then (CoreDNS, KubeDNS) else (KubeDNS, CoreDNS))
     \<and> fst names \<noteq> snd names
     \<and> (\<exists>t. snd (run_state (removeOldDNSDeployment_attempt e cfg) h)
              = h @ GetDeployment (NamespaceSystem k) (fst names) # t
          \<and> (t = [] \<or> t = [DeleteDeploymentForeground (NamespaceSystem k) (snd names)])))"
proof -
  have names: "dnsDeploymentNames (kubeadmconstants e) cfg =
      (if features_Enabled (kubeadmconstants e) (FeatureGates cfg)
            (features_CoreDNS (kubeadmconstants e))
       then (CoreDNS, KubeDNS) else (KubeDNS, CoreDNS))"
    by (simp add: dnsDeploymentNames_def Let_def)
  have differ: "fst (dnsDeploymentNames (kubeadmconstants e) cfg)
      \<noteq> snd (dnsDeploymentNames (kubeadmconstants e) cfg)"
    by (simp add: names KubeDNS_def CoreDNS_def)
  have calls: "\<exists>t. snd (run_state (removeOldDNSDeployment_attempt e cfg) h)
      = h @ GetDeployment (NamespaceSystem (kubeadmconstants e))
              (fst (dnsDeploymentNames (kubeadmconstants e) cfg)) # t
      \<and> (t = [] \<or> t = [DeleteDeploymentForeground (NamespaceSystem (kubeadmconstants e))
              (snd (dnsDeploymentNames (kubeadmconstants e) cfg))])"
    by (simp add: run_removeOldDNSDeployment_attempt Let_def split: sum.splits)
  from names differ calls show ?thesis
    unfolding Let_def by blast
qed

text \<open>
  C5. Within one attempt, the foreground deletion of the stale deployment is issued only
  after the status of the installed deployment was fetched and showed at least one ready
  replica: a failed fetch fails the attempt with the error of the fetch, no ready replica
  fails it with "the DNS deployment isn't ready yet", and in both cases nothing is deleted.
  When the deletion is issued, its success and its "not found" both make the attempt
  succeed, and any other failure of the deletion is the failure of the attempt.
\<close>

theorem dns_attempt_deletes_only_when_ready:
  "(let k = kubeadmconstants e;
        ns = NamespaceSystem k;
        installed = fst (dnsDeploymentNames k cfg);
        stale = snd (dnsDeploymentNames k cfg);
        fetched = returns_deployment e h (GetDeployment ns installed);
        deleted = returns_error e (h @ [GetDeployment ns installed])
                    (DeleteDeploymentForeground ns stale);
        result = fst (run_state (removeOldDNSDeployment_attempt e cfg) h);
        t = drop (length h) (snd (run_state (removeOldDNSDeployment_attempt e cfg) h))
    in ((\<exists>c \<in> set t. is_delete c) \<longrightarrow>
          t = [GetDeployment ns installed, DeleteDeploymentForeground ns stale]
          \<and> (\<exists>d. fetched = Inr d \<and> 1 \<le> ReadyReplicas d))
     \<and> (\<forall>err. fetched = Inl err \<longrightarrow> result = Some err \<and> t = [GetDeployment ns installed])
     \<and> (\<forall>d. fetched = Inr d \<and> ReadyReplicas d = 0 \<longrightarrow>
           result = Some (ErrorString ''the DNS deployment isn't ready yet'')
           \<and> t = [GetDeployment ns installed])
     \<and> (\<forall>d. fetched = Inr d \<and> 1 \<le> ReadyReplicas d \<longrightarrow>
           t = [GetDeployment ns installed, DeleteDeploymentForeground ns stale]
           \<and> (deleted = None \<longrightarrow> result = None)
           \<and> (\<forall>er. deleted = Some er \<and> IsNotFound er \<longrightarrow> result = None)
           \<and> (\<forall>er. deleted = Some er \<and> \<not> IsNotFound er \<longrightarrow> result = Some er)))"
proof (cases "returns_deployment e h (GetDeployment (NamespaceSystem (kubeadmconstants e))
                (fst (dnsDeploymentNames (kubeadmconstants e) cfg)))")
  case (Inl err)
  then show ?thesis by (simp add: run_removeOldDNSDeployment_attempt Let_def)
next
  case (Inr d)
  show ?thesis
  proof (cases "ReadyReplicas d = 0")
    case True
    with Inr show ?thesis by (simp add: run_removeOldDNSDeployment_attempt Let_def)
  next
    case False
    with Inr show ?thesis
      by (simp add: run_removeOldDNSDeployment_attempt Let_def split: option.splits)
  qed
qed

theorem dns_attempt_deletes_only_when_ready_witness:
  "run_state (removeOldDNSDeployment_attempt (quiet_env 0 False) cfg0) []
     = (None, [GetDeployment ''kube-system'' ''kube-dns'',
               DeleteDeploymentForeground ''kube-system'' ''coredns''])
   \<and> run_state (removeOldDNSDeployment_attempt
        ((quiet_env 0 False)\<lparr> returns_error := (\<lambda>h c. Some (External True ''not found'')) \<rparr>) cfg0) []
     = (None, [GetDeployment ''kube-system'' ''kube-dns'',
               DeleteDeploymentForeground ''kube-system'' ''coredns''])
   \<and> run_state (removeOldDNSDeployment_attempt
        ((quiet_env 0 False)\<lparr> returns_error := (\<lambda>h c. Some (External False ''forbidden'')) \<rparr>) cfg0) []
     = (Some (External False ''forbidden''),
        [GetDeployment ''kube-system'' ''kube-dns'',
         DeleteDeploymentForeground ''kube-system'' ''coredns''])
   \<and> run_state (removeOldDNSDeployment_attempt
        ((quiet_env 0 False)\<lparr> returns_deployment := (\<lambda>h c. Inl (External False ''unreachable'')) \<rparr>)
        cfg0) []
     = (Some (External False ''unreachable''), [GetDeployment ''kube-system'' ''kube-dns''])
   \<and> run_state (removeOldDNSDeployment_attempt
        ((quiet_env 0 False)\<lparr> returns_deployment := (\<lambda>h c. Inr \<lparr> ReadyReplicas = 0 \<rparr>) \<rparr>)
        cfg0) []
     = (Some (ErrorString ''the DNS deployment isn't ready yet''),
        [GetDeployment ''kube-system'' ''kube-dns''])"
  using dns_attempt_deletes_only_when_ready [of "quiet_env 0 False" cfg0 "[]"]
    dns_attempt_deletes_only_when_ready
      [of "(quiet_env 0 False)\<lparr> returns_error := (\<lambda>h c. Some (External True ''not found'')) \<rparr>"
          cfg0 "[]"]
    dns_attempt_deletes_only_when_ready
      [of "(quiet_env 0 False)\<lparr> returns_error := (\<lambda>h c. Some (External False ''forbidden'')) \<rparr>"
          cfg0 "[]"]
    dns_attempt_deletes_only_when_ready
      [of "(quiet_env 0 False)\<lparr> returns_deployment := (\<lambda>h c. Inl (External False ''unreachable'')) \<rparr>"
          cfg0 "[]"]
    dns_attempt_deletes_only_when_ready
      [of "(quiet_env 0 False)\<lparr> returns_deployment := (\<lambda>h c. Inr \<lparr> ReadyReplicas = 0 \<rparr>) \<rparr>"
          cfg0 "[]"]
  by (simp add: run_removeOldDNSDeployment_attempt Let_def dnsDeploymentNames_def
        kubeadm_constants_def cfg0_def KubeDNS_def CoreDNS_def)

subsection \<open>The gate of self-hosting\<close>


lemma run_upgradeToSelfHosting:
  "run_state (upgradeToSelfHosting e cfg dryRun) h =
    (let k = kubeadmconstants e;
         convert = CreateSelfHostedControlPlane (GetStaticPodDirectory k) (KubernetesDir k)
                    (getWaiter dryRun) dryRun;
         h1 = h @ [IsControlPlaneSelfHosted];
         h2 = h1 @ [Println ''[self-hosted] Creating self-hosted control plane.'']
     in if features_Enabled k (FeatureGates cfg) (features_SelfHosting k)
        then if self_hosted e h then (None, h1)
             else (map_option (Errorf ''error creating self hosted control plane: '')
                     (returns_error e h2 convert), h2 @ [convert])
        else (None, h))"
  by (simp add: upgradeToSelfHosting_def Let_def split: option.splits)




subsection \<open>The calls a computation makes\<close>

lemma run_os_Mkdir [simp]:
  "run_state (os_Mkdir e p m) h =
     (if dir_exists e (rev h) p then Some (External False (''mkdir '' @ p @ '': file exists''))
      else returns_error e h (Mkdir p m), h @ [Mkdir p m])"
  by (simp add: os_Mkdir_def)

lemma only_calls_return [intro!]: "only_calls P (State_Monad.return x)"
  by (simp add: only_calls_def)

lemma only_calls_bind [intro!]:
  assumes "only_calls P m" and "\<And>x. only_calls P (f x)"
  shows "only_calls P (State_Monad.bind m f)"
  unfolding only_calls_def
proof
  fix h
  obtain x h1 where r: "run_state m h = (x, h1)" by (cases "run_state m h")
  from assms(1) r obtain t1 where t1: "h1 = h @ t1" "list_all P t1"
    unfolding only_calls_def by (metis snd_conv)
  from assms(2) [of x] obtain t2 where t2: "snd (run_state (f x) h1) = h1 @ t2" "list_all P t2"
    unfolding only_calls_def by blast
  from r t1 t2 have "snd (run_state (State_Monad.bind m f) h) = h @ (t1 @ t2)
      \<and> list_all P (t1 @ t2)"
    by simp
  then show "\<exists>t. snd (run_state (State_Monad.bind m f) h) = h @ t \<and> list_all P t"
    by blast
qed

lemma only_calls_get [intro!]: "only_calls P State_Monad.get"
  by (simp add: only_calls_def)

lemma only_calls_one:
  "(\<And>h. \<exists>x. run_state m h = (x, h @ [c])) \<Longrightarrow> P c \<Longrightarrow> only_calls P m"
  unfolding only_calls_def
proof
  fix h
  assume a: "\<And>h. \<exists>x. run_state m h = (x, h @ [c])" and p: "P c"
  from a [of h] obtain x where "run_state m h = (x, h @ [c])" by blast
  with p have "snd (run_state m h) = h @ [c] \<and> list_all P [c]" by simp
  then show "\<exists>t. snd (run_state m h) = h @ t \<and> list_all P t" by blast
qed

lemma only_calls_invoke [intro!]: "P c \<Longrightarrow> only_calls P (invoke e c)"
  by (rule only_calls_one [where c = c]) simp_all

lemma only_calls_emit [intro!]: "P c \<Longrightarrow> only_calls P (emit c)"
  by (rule only_calls_one [where c = c]) simp_all

lemma only_calls_TempDir [intro!]: "P (TempDir d p) \<Longrightarrow> only_calls P (ioutil_TempDir e d p)"
  by (rule only_calls_one [where c = "TempDir d p"]) simp_all

lemma only_calls_CertsFromFile [intro!]:
  "P (CertsFromFile p) \<Longrightarrow> only_calls P (certutil_CertsFromFile e p)"
  by (rule only_calls_one [where c = "CertsFromFile p"]) simp_all

lemma only_calls_Now [intro!]: "P Now \<Longrightarrow> only_calls P (time_Now e)"
  by (rule only_calls_one [where c = Now]) simp_all

lemma only_calls_Get [intro!]:
  "P (GetDeployment ns n) \<Longrightarrow> only_calls P (Deployments_Get e ns n)"
  by (rule only_calls_one [where c = "GetDeployment ns n"]) simp_all

lemma only_calls_IsSelfHosted [intro!]:
  "P IsControlPlaneSelfHosted \<Longrightarrow> only_calls P (IsControlPlaneSelfHosted_call e)"
  by (rule only_calls_one [where c = IsControlPlaneSelfHosted]) simp_all

lemma only_calls_Mkdir [intro!]: "P (Mkdir p m) \<Longrightarrow> only_calls P (os_Mkdir e p m)"
  by (rule only_calls_one [where c = "Mkdir p m"]) simp_all

lemma only_calls_mono:
  "only_calls P m \<Longrightarrow> (\<And>c. P c \<Longrightarrow> Q c) \<Longrightarrow> only_calls Q m"
  unfolding only_calls_def list_all_iff by blast

lemma only_callsD:
  "only_calls P m \<Longrightarrow> \<exists>t. snd (run_state m h) = h @ t \<and> list_all P t"
  by (simp add: only_calls_def)

lemma only_calls_rollbackFiles_loop: "only_calls is_rename (rollbackFiles_loop e files errs)"
proof (induction files arbitrary: errs)
  case Nil
  show ?case by auto
next
  case (Cons f files)
  obtain a b where f: "f = (a, b)" by (cases f)
  show ?case unfolding f rollbackFiles_loop.simps
    by (intro only_calls_bind only_calls_invoke Cons.IH) simp
qed

lemma only_calls_rollbackFiles: "only_calls is_rename (rollbackFiles e files err)"
  unfolding rollbackFiles_def
  by (intro only_calls_bind only_calls_get only_calls_return only_calls_rollbackFiles_loop)

lemma only_calls_moveFiles_loop: "only_calls is_rename (moveFiles_loop e files rec)"
proof (induction files arbitrary: rec)
  case Nil
  show ?case by auto
next
  case (Cons f files)
  obtain a b where f: "f = (a, b)" by (cases f)
  have "only_calls is_rename (case err of
          Some er \<Rightarrow> State_Monad.bind (rollbackFiles e rec er) (\<lambda>r. State_Monad.return (Some r))
        | None \<Rightarrow> moveFiles_loop e files (AList.update b a rec))" for err
    by (cases err) (auto intro: Cons.IH only_calls_rollbackFiles)
  then show ?case unfolding f moveFiles_loop.simps
    by (intro only_calls_bind only_calls_invoke) simp_all
qed

lemma only_calls_moveFiles: "only_calls is_rename (moveFiles e files)"
  unfolding moveFiles_def
  by (intro only_calls_bind only_calls_get only_calls_moveFiles_loop)

lemma only_calls_backup: "only_calls is_fs (backupAPIServerCertAndKey e dir)"
proof -
  have mv: "only_calls is_fs (moveFiles e files)" for files
    by (rule only_calls_mono [OF only_calls_moveFiles]) (case_tac c, simp_all)
  have "only_calls is_fs (case err of
          Some er \<Rightarrow> State_Monad.return (Some (ErrorString (msg er)))
        | None \<Rightarrow> moveFiles e files)" for err msg files
    by (cases err) (auto intro: mv)
  then show ?thesis
    unfolding backupAPIServerCertAndKey_def Let_def
    by (intro only_calls_bind only_calls_Mkdir) simp_all
qed

lemma only_calls_shouldBackup:
  "only_calls (\<lambda>c. \<not> is_step c \<and> \<not> is_dns c) (shouldBackupAPIServerCertAndKey e dir)"
  unfolding shouldBackupAPIServerCertAndKey_def Let_def
  by (auto intro!: only_calls_bind only_calls_CertsFromFile only_calls_Now only_calls_return
        split: sum.splits)

lemma only_calls_backup_aux:
  "only_calls (\<lambda>c. \<not> is_step c \<and> \<not> is_dns c) (backupAPIServerCertAndKey e dir)"
  by (rule only_calls_mono [OF only_calls_backup]) (case_tac c, simp_all)

lemma only_calls_apiServerCertSteps:
  "only_calls (\<lambda>c. \<not> is_step c \<and> \<not> is_dns c) (apiServerCertSteps e cfg errs)"
  unfolding apiServerCertSteps_def Let_def
  by (auto intro!: only_calls_bind only_calls_emit only_calls_invoke only_calls_return
        only_calls_shouldBackup only_calls_backup_aux split: sum.splits option.splits)

lemma only_calls_getKubeletDir:
  "only_calls (\<lambda>c. \<not> is_step c \<and> \<not> is_dns c) (getKubeletDir e dryRun)"
  unfolding getKubeletDir_def
  by (auto intro!: only_calls_TempDir only_calls_return)

lemma only_calls_kubeletConfigSteps:
  "only_calls (\<lambda>c. \<not> is_step c \<and> \<not> is_dns c) (kubeletConfigSteps e v dryRun errs)"
  unfolding kubeletConfigSteps_def
  by (auto intro!: only_calls_bind only_calls_invoke only_calls_return only_calls_getKubeletDir
        split: sum.splits option.splits)

lemma only_calls_upgradeToSelfHosting:
  "only_calls (\<lambda>c. \<not> is_step c \<and> \<not> is_dns c) (upgradeToSelfHosting e cfg dryRun)"
  unfolding upgradeToSelfHosting_def Let_def
  by (auto intro!: only_calls_bind only_calls_invoke only_calls_emit only_calls_return
        only_calls_IsSelfHosted split: option.splits)

lemma only_calls_attempt: "only_calls is_dns (removeOldDNSDeployment_attempt e cfg)"
  unfolding removeOldDNSDeployment_attempt_def Let_def split_beta
  by (auto intro!: only_calls_bind only_calls_invoke only_calls_Get only_calls_return
        split: sum.splits option.splits)

lemma only_calls_TryRunCommand: "only_calls P f \<Longrightarrow> only_calls P (TryRunCommand f n)"
proof (induction n)
  case 0
  show ?case by auto
next
  case (Suc n)
  have "only_calls P (case err of None \<Rightarrow> State_Monad.return None
        | Some er \<Rightarrow> if n = 0 then State_Monad.return (Some er) else TryRunCommand f n)" for err
    using Suc by (cases err) auto
  with Suc.prems show ?case
    unfolding TryRunCommand.simps by (intro only_calls_bind)
qed

lemma only_calls_removeOldDNS:
  "only_calls is_dns (removeOldDNSDeploymentIfAnotherDNSIsUsed e cfg)"
  unfolding removeOldDNSDeploymentIfAnotherDNSIsUsed_def
  by (rule only_calls_TryRunCommand [OF only_calls_attempt])

subsection \<open>The failures of the steps\<close>

lemma appendErr_errlist: "appendErr errs r = errs @ errlist r"
  by (cases r) simp_all

lemma step_failures_append:
  "step_failures e h (t1 @ t2) = step_failures e h t1 @ step_failures e (h @ t1) t2"
  by (induction t1 arbitrary: h) simp_all

lemma step_failures_no_step:
  "list_all (\<lambda>c. \<not> is_step c) t \<Longrightarrow> step_failures e h t = []"
  by (induction t arbitrary: h) simp_all

lemma reports_simple:
  assumes "is_step c" and "\<And>er. wrap er = step_error c er"
  shows "reports e [c] (simple_step e wrap c)"
proof -
  have "map_option wrap r = map_option (step_error c) r" for r
    using assms(2) by (cases r) simp_all
  with assms(1) show ?thesis
    by (simp add: reports_def simple_step_def appendErr_errlist)
qed

lemma reports_block:
  assumes calls: "\<And>errs. only_calls (\<lambda>c. \<not> is_step c) (m errs)"
    and errs: "\<And>errs h. \<exists>new. fst (run_state (m errs) h) = errs @ new"
  shows "reports e [] m"
  unfolding reports_def
proof (intro allI)
  fix errs h
  from only_callsD [OF calls] obtain t where
    t: "snd (run_state (m errs) h) = h @ t" "list_all (\<lambda>c. \<not> is_step c) t"
    by blast
  from errs obtain new where new: "fst (run_state (m errs) h) = errs @ new" by blast
  from t(2) have none: "filter is_step t = []"
    by (induction t) simp_all
  from t new have "run_state (m errs) h = (errs @ new, h @ t)"
    by (simp add: prod_eq_iff)
  with none t(2) show "\<exists>new t. run_state (m errs) h = (errs @ new, h @ t)
      \<and> filter is_step t = [] \<and> subseq (step_failures e h t) new"
    by (auto simp add: step_failures_no_step)
qed

lemma reports_then:
  assumes "reports e cs1 m1" and "reports e cs2 m2"
  shows "reports e (cs1 @ cs2) (then_steps m1 m2)"
  unfolding reports_def
proof (intro allI)
  fix errs h
  from assms(1) obtain new1 t1 where
    1: "run_state (m1 errs) h = (errs @ new1, h @ t1)" "filter is_step t1 = cs1"
       "subseq (step_failures e h t1) new1"
    unfolding reports_def by blast
  from assms(2) obtain new2 t2 where
    2: "run_state (m2 (errs @ new1)) (h @ t1) = ((errs @ new1) @ new2, (h @ t1) @ t2)"
       "filter is_step t2 = cs2" "subseq (step_failures e (h @ t1) t2) new2"
    unfolding reports_def by blast
  have run: "run_state (then_steps m1 m2 errs) h = (errs @ (new1 @ new2), h @ (t1 @ t2))"
    using 1(1) 2(1) by (simp add: then_steps_def)
  have steps: "filter is_step (t1 @ t2) = cs1 @ cs2"
    using 1(2) 2(2) by simp
  have emb: "subseq (step_failures e h (t1 @ t2)) (new1 @ new2)"
    using 1(3) 2(3) by (simp add: step_failures_append list_emb_append_mono)
  from run steps emb show "\<exists>new t. run_state (then_steps m1 m2 errs) h = (errs @ new, h @ t)
      \<and> filter is_step t = cs1 @ cs2 \<and> subseq (step_failures e h t) new"
    by blast
qed

lemma PerformPostUpgradeTasks_errs_chain:
  "PerformPostUpgradeTasks_errs e cfg v dryRun =
     then_steps (simple_step e (\<lambda>x. x) UploadConfiguration)
    (then_steps (simple_step e (Errorf ''error creating kubelet configuration ConfigMap: '')
                   CreateConfigMap)
    (then_steps (kubeletConfigSteps e v dryRun)
    (then_steps (simple_step e (Errorf ''error uploading crisocket: '')
                   (AnnotateCRISocket (NodeRegistration_Name cfg) (NodeRegistration_CRISocket cfg)))
    (then_steps (simple_step e (\<lambda>x. x) AllowBootstrapTokensToPostCSRs)
    (then_steps (simple_step e (\<lambda>x. x) AutoApproveNodeBootstrapTokens)
    (then_steps (simple_step e (\<lambda>x. x) AutoApproveNodeCertificateRotation)
    (then_steps (after_step (upgradeToSelfHosting e cfg dryRun))
    (then_steps (simple_step e (\<lambda>x. x) CreateClusterInfoRBACRules)
    (then_steps (apiServerCertSteps e cfg)
    (then_steps (simple_step e (\<lambda>x. x) EnsureDNSAddon)
    (then_steps (\<lambda>errs. if \<not> dryRun
                   then after_step (removeOldDNSDeploymentIfAnotherDNSIsUsed e cfg) errs
                   else State_Monad.return errs)
                (simple_step e (\<lambda>x. x) EnsureProxyAddon)))))))))))) []"
  unfolding PerformPostUpgradeTasks_errs_def then_steps_def [abs_def]
    simple_step_def [abs_def] after_step_def [abs_def] Let_def
  by (simp add: option.map_ident cong: if_cong)

lemma errs_kubeletConfigSteps:
  "\<exists>new. fst (run_state (kubeletConfigSteps e v dryRun errs) h) = errs @ new"
  by (simp add: kubeletConfigSteps_def getKubeletDir_def split_beta
        split: sum.splits option.splits)

lemma errs_apiServerCertSteps:
  "\<exists>new. fst (run_state (apiServerCertSteps e cfg errs) h) = errs @ new"
  by (simp add: apiServerCertSteps_def Let_def split_beta appendErr_errlist
        split: sum.splits option.splits)

lemma errs_after_step: "\<exists>new. fst (run_state (after_step m errs) h) = errs @ new"
  by (simp add: after_step_def split_beta appendErr_errlist)

lemma only_calls_after_step: "only_calls P m \<Longrightarrow> only_calls P (after_step m errs)"
  unfolding after_step_def by (intro only_calls_bind only_calls_return)

lemma reports_after_kubeletConfigSteps:
  "reports e
     [AnnotateCRISocket (NodeRegistration_Name cfg) (NodeRegistration_CRISocket cfg),
      AllowBootstrapTokensToPostCSRs, AutoApproveNodeBootstrapTokens,
      AutoApproveNodeCertificateRotation, CreateClusterInfoRBACRules,
      EnsureDNSAddon, EnsureProxyAddon]
     (then_steps (simple_step e (Errorf ''error uploading crisocket: '')
                   (AnnotateCRISocket (NodeRegistration_Name cfg) (NodeRegistration_CRISocket cfg)))
    (then_steps (simple_step e (\<lambda>x. x) AllowBootstrapTokensToPostCSRs)
    (then_steps (simple_step e (\<lambda>x. x) AutoApproveNodeBootstrapTokens)
    (then_steps (simple_step e (\<lambda>x. x) AutoApproveNodeCertificateRotation)
    (then_steps (after_step (upgradeToSelfHosting e cfg dryRun))
    (then_steps (simple_step e (\<lambda>x. x) CreateClusterInfoRBACRules)
    (then_steps (apiServerCertSteps e cfg)
    (then_steps (simple_step e (\<lambda>x. x) EnsureDNSAddon)
    (then_steps (\<lambda>errs. if \<not> dryRun
                   then after_step (removeOldDNSDeploymentIfAnotherDNSIsUsed e cfg) errs
                   else State_Monad.return errs)
                (simple_step e (\<lambda>x. x) EnsureProxyAddon))))))))))"
proof -
  have hosting: "reports e [] (after_step (upgradeToSelfHosting e cfg dryRun))"
    by (rule reports_block)
       (rule only_calls_after_step,
        rule only_calls_mono [OF only_calls_upgradeToSelfHosting], simp,
        rule errs_after_step)
  have cert: "reports e [] (apiServerCertSteps e cfg)"
    by (rule reports_block)
       (rule only_calls_mono [OF only_calls_apiServerCertSteps], simp,
        rule errs_apiServerCertSteps)
  have dns_calls: "only_calls (\<lambda>c. \<not> is_step c)
      (if \<not> dryRun then after_step (removeOldDNSDeploymentIfAnotherDNSIsUsed e cfg) errs
       else State_Monad.return errs)" for errs
  proof (cases dryRun)
    case True
    then show ?thesis by auto
  next
    case False
    have "only_calls (\<lambda>c. \<not> is_step c) (removeOldDNSDeploymentIfAnotherDNSIsUsed e cfg)"
      by (rule only_calls_mono [OF only_calls_removeOldDNS]) (case_tac c, simp_all)
    with False show ?thesis by (simp add: only_calls_after_step)
  qed
  have dns_errs: "\<exists>new. fst (run_state
      (if \<not> dryRun then after_step (removeOldDNSDeploymentIfAnotherDNSIsUsed e cfg) errs
       else State_Monad.return errs) h) = errs @ new" for errs h
    using errs_after_step [of "removeOldDNSDeploymentIfAnotherDNSIsUsed e cfg" errs h]
    by (cases dryRun) simp_all
  have dns: "reports e [] (\<lambda>errs. if \<not> dryRun
      then after_step (removeOldDNSDeploymentIfAnotherDNSIsUsed e cfg) errs
      else State_Monad.return errs)"
    by (rule reports_block) (rule dns_calls, rule dns_errs)
  have simple: "reports e [c] (simple_step e (\<lambda>x. x) c)"
    if "is_step c" "\<And>er. step_error c er = er" for c
    using that by (intro reports_simple) simp_all
  note steps =
    simple [of UploadConfiguration]
    reports_simple [of CreateConfigMap
      "Errorf ''error creating kubelet configuration ConfigMap: ''" e]
    reports_simple [of "AnnotateCRISocket (NodeRegistration_Name cfg) (NodeRegistration_CRISocket cfg)"
      "Errorf ''error uploading crisocket: ''" e]
    simple [of AllowBootstrapTokensToPostCSRs]
    simple [of AutoApproveNodeBootstrapTokens]
    simple [of AutoApproveNodeCertificateRotation]
    simple [of CreateClusterInfoRBACRules]
    simple [of EnsureDNSAddon]
    simple [of EnsureProxyAddon]
  have s3: "reports e
      [AnnotateCRISocket (NodeRegistration_Name cfg) (NodeRegistration_CRISocket cfg)]
      (simple_step e (Errorf ''error uploading crisocket: '')
         (AnnotateCRISocket (NodeRegistration_Name cfg) (NodeRegistration_CRISocket cfg)))"
    by (rule steps(3)) simp_all
  have s4: "reports e [AllowBootstrapTokensToPostCSRs]
      (simple_step e (\<lambda>x. x) AllowBootstrapTokensToPostCSRs)"
    by (rule steps(4)) simp_all
  have s5: "reports e [AutoApproveNodeBootstrapTokens]
      (simple_step e (\<lambda>x. x) AutoApproveNodeBootstrapTokens)"
    by (rule steps(5)) simp_all
  have s6: "reports e [AutoApproveNodeCertificateRotation]
      (simple_step e (\<lambda>x. x) AutoApproveNodeCertificateRotation)"
    by (rule steps(6)) simp_all
  have s7: "reports e [CreateClusterInfoRBACRules]
      (simple_step e (\<lambda>x. x) CreateClusterInfoRBACRules)"
    by (rule steps(7)) simp_all
  have s8: "reports e [EnsureDNSAddon] (simple_step e (\<lambda>x. x) EnsureDNSAddon)"
    by (rule steps(8)) simp_all
  have s9: "reports e [EnsureProxyAddon] (simple_step e (\<lambda>x. x) EnsureProxyAddon)"
    by (rule steps(9)) simp_all
  note r = reports_then
  from r [OF s3 r [OF s4 r [OF s5 r [OF s6 r [OF hosting
    r [OF s7 r [OF cert r [OF s8 r [OF dns s9]]]]]]]]]
  show ?thesis by simp
qed

lemma reports_PerformPostUpgradeTasks:
  "reports e
     [UploadConfiguration, CreateConfigMap,
      AnnotateCRISocket (NodeRegistration_Name cfg) (NodeRegistration_CRISocket cfg),
      AllowBootstrapTokensToPostCSRs, AutoApproveNodeBootstrapTokens,
      AutoApproveNodeCertificateRotation, CreateClusterInfoRBACRules,
      EnsureDNSAddon, EnsureProxyAddon]
     (then_steps (simple_step e (\<lambda>x. x) UploadConfiguration)
    (then_steps (simple_step e (Errorf ''error creating kubelet configuration ConfigMap: '')
                   CreateConfigMap)
    (then_steps (kubeletConfigSteps e v dryRun)
    (then_steps (simple_step e (Errorf ''error uploading crisocket: '')
                   (AnnotateCRISocket (NodeRegistration_Name cfg) (NodeRegistration_CRISocket cfg)))
    (then_steps (simple_step e (\<lambda>x. x) AllowBootstrapTokensToPostCSRs)
    (then_steps (simple_step e (\<lambda>x. x) AutoApproveNodeBootstrapTokens)
    (then_steps (simple_step e (\<lambda>x. x) AutoApproveNodeCertificateRotation)
    (then_steps (after_step (upgradeToSelfHosting e cfg dryRun))
    (then_steps (simple_step e (\<lambda>x. x) CreateClusterInfoRBACRules)
    (then_steps (apiServerCertSteps e cfg)
    (then_steps (simple_step e (\<lambda>x. x) EnsureDNSAddon)
    (then_steps (\<lambda>errs. if \<not> dryRun
                   then after_step (removeOldDNSDeploymentIfAnotherDNSIsUsed e cfg) errs
                   else State_Monad.return errs)
                (simple_step e (\<lambda>x. x) EnsureProxyAddon)))))))))))))"
proof -
  have kubelet: "reports e [] (kubeletConfigSteps e v dryRun)"
    by (rule reports_block)
       (rule only_calls_mono [OF only_calls_kubeletConfigSteps], simp,
        rule errs_kubeletConfigSteps)
  have simple: "reports e [c] (simple_step e (\<lambda>x. x) c)"
    if "is_step c" "\<And>er. step_error c er = er" for c
    using that by (intro reports_simple) simp_all
  have s1: "reports e [UploadConfiguration] (simple_step e (\<lambda>x. x) UploadConfiguration)"
    by (rule simple) simp_all
  have s2: "reports e [CreateConfigMap]
      (simple_step e (Errorf ''error creating kubelet configuration ConfigMap: '') CreateConfigMap)"
    by (rule reports_simple) simp_all
  note r = reports_then
  from r [OF s1 r [OF s2 r [OF kubelet reports_after_kubeletConfigSteps [of e cfg dryRun]]]]
  show ?thesis by simp
qed

lemma reportsD:
  assumes "reports e cs m"
  shows "\<exists>new t. run_state (m []) h = (new, h @ t)
    \<and> filter is_step t = cs \<and> subseq (step_failures e h t) new"
proof -
  from assms have "\<exists>new t. run_state (m []) h = ([] @ new, h @ t)
      \<and> filter is_step t = cs \<and> subseq (step_failures e h t) new"
    unfolding reports_def by blast
  then show ?thesis by simp
qed

lemma PerformPostUpgradeTasks_errs_steps:
  "\<exists>new t. run_state (PerformPostUpgradeTasks_errs e cfg v dryRun) h = (new, h @ t)
     \<and> filter is_step t =
         [UploadConfiguration, CreateConfigMap,
          AnnotateCRISocket (NodeRegistration_Name cfg) (NodeRegistration_CRISocket cfg),
          AllowBootstrapTokensToPostCSRs, AutoApproveNodeBootstrapTokens,
          AutoApproveNodeCertificateRotation, CreateClusterInfoRBACRules,
          EnsureDNSAddon, EnsureProxyAddon]
     \<and> subseq (step_failures e h t) new"
  unfolding PerformPostUpgradeTasks_errs_chain
  by (rule reportsD [OF reports_PerformPostUpgradeTasks])

subsection \<open>The aggregate\<close>





subsection \<open>The kubelet configuration\<close>

lemma run_getKubeletDir:
  "run_state (getKubeletDir e dryRun) h =
     (if dryRun
      then (returns_dir e h (TempDir [] ''kubeadm-upgrade-dryrun''),
            h @ [TempDir [] ''kubeadm-upgrade-dryrun''])
      else (Inr (KubeletRunDirectory (kubeadmconstants e)), h))"
  by (simp add: getKubeletDir_def)

lemma run_kubeletConfigSteps:
  "run_state (kubeletConfigSteps e v dryRun errs) h =
     (let h1 = snd (run_state (getKubeletDir e dryRun) h)
      in case fst (run_state (getKubeletDir e dryRun) h) of
           Inl err \<Rightarrow> (errs @ [err], h1)
         | Inr dir \<Rightarrow>
             (case returns_error e h1 (DownloadConfig v dir) of
                None \<Rightarrow> errs
              | Some er \<Rightarrow>
                  if IsNotFound er \<and> dryRun then errs
                  else errs @ [Errorf
                    ''error downloading kubelet configuration from the ConfigMap: '' er],
              h1 @ [DownloadConfig v dir]))"
  by (simp add: kubeletConfigSteps_def Let_def split_beta split: sum.splits option.splits)

lemma errs_kubeletConfigSteps_from_Nil:
  "fst (run_state (kubeletConfigSteps e v dryRun errs) h)
     = errs @ fst (run_state (kubeletConfigSteps e v dryRun []) h)"
  by (simp add: run_kubeletConfigSteps Let_def split: sum.splits option.splits)

lemma run_then_steps:
  "run_state (then_steps m1 m2 errs) h =
     run_state (m2 (fst (run_state (m1 errs) h))) (snd (run_state (m1 errs) h))"
  by (simp add: then_steps_def split_beta)

lemma reports_appends:
  "reports e cs m \<Longrightarrow> \<exists>new. fst (run_state (m errs) h) = errs @ new"
  unfolding reports_def by (metis fst_conv)

lemma run_simple_then:
  "run_state (then_steps (simple_step e w c) m errs) h =
     run_state (m (appendErr errs (map_option w (returns_error e h c)))) (h @ [c])"
  by (simp add: run_then_steps simple_step_def)

lemma kubelet_errors_reach_the_result:
  "\<exists>a b. fst (run_state (PerformPostUpgradeTasks_errs e cfg v dryRun) h) =
     a @ fst (run_state (kubeletConfigSteps e v dryRun [])
                (h @ [UploadConfiguration, CreateConfigMap])) @ b"
proof -
  define tail where "tail =
     then_steps (simple_step e (Errorf ''error uploading crisocket: '')
                   (AnnotateCRISocket (NodeRegistration_Name cfg) (NodeRegistration_CRISocket cfg)))
    (then_steps (simple_step e (\<lambda>x. x) AllowBootstrapTokensToPostCSRs)
    (then_steps (simple_step e (\<lambda>x. x) AutoApproveNodeBootstrapTokens)
    (then_steps (simple_step e (\<lambda>x. x) AutoApproveNodeCertificateRotation)
    (then_steps (after_step (upgradeToSelfHosting e cfg dryRun))
    (then_steps (simple_step e (\<lambda>x. x) CreateClusterInfoRBACRules)
    (then_steps (apiServerCertSteps e cfg)
    (then_steps (simple_step e (\<lambda>x. x) EnsureDNSAddon)
    (then_steps (\<lambda>errs. if \<not> dryRun
                   then after_step (removeOldDNSDeploymentIfAnotherDNSIsUsed e cfg) errs
                   else State_Monad.return errs)
                (simple_step e (\<lambda>x. x) EnsureProxyAddon)))))))))"
  define a where "a = appendErr (appendErr [] (returns_error e h UploadConfiguration))
    (map_option (Errorf ''error creating kubelet configuration ConfigMap: '')
      (returns_error e (h @ [UploadConfiguration]) CreateConfigMap))"
  define k where "k = fst (run_state (kubeletConfigSteps e v dryRun [])
    (h @ [UploadConfiguration, CreateConfigMap]))"
  define hk where "hk = snd (run_state (kubeletConfigSteps e v dryRun a)
    (h @ [UploadConfiguration, CreateConfigMap]))"
  have tail: "reports e
     [AnnotateCRISocket (NodeRegistration_Name cfg) (NodeRegistration_CRISocket cfg),
      AllowBootstrapTokensToPostCSRs, AutoApproveNodeBootstrapTokens,
      AutoApproveNodeCertificateRotation, CreateClusterInfoRBACRules,
      EnsureDNSAddon, EnsureProxyAddon] tail"
    unfolding tail_def by (rule reports_after_kubeletConfigSteps)
  have chain: "PerformPostUpgradeTasks_errs e cfg v dryRun =
     then_steps (simple_step e (\<lambda>x. x) UploadConfiguration)
    (then_steps (simple_step e (Errorf ''error creating kubelet configuration ConfigMap: '')
                   CreateConfigMap)
    (then_steps (kubeletConfigSteps e v dryRun) tail)) []"
    unfolding tail_def by (rule PerformPostUpgradeTasks_errs_chain)
  have block: "fst (run_state (kubeletConfigSteps e v dryRun a)
      (h @ [UploadConfiguration, CreateConfigMap])) = a @ k"
    unfolding k_def by (rule errs_kubeletConfigSteps_from_Nil)
  have 1: "run_state (PerformPostUpgradeTasks_errs e cfg v dryRun) h =
      run_state (then_steps (kubeletConfigSteps e v dryRun) tail a)
        (h @ [UploadConfiguration, CreateConfigMap])"
    unfolding chain a_def by (simp add: run_simple_then option.map_ident)
  have 2: "run_state (then_steps (kubeletConfigSteps e v dryRun) tail a)
        (h @ [UploadConfiguration, CreateConfigMap]) = run_state (tail (a @ k)) hk"
    by (simp add: run_then_steps block hk_def)
  from reports_appends [OF tail, of "a @ k" hk]
  obtain b where "fst (run_state (tail (a @ k)) hk) = (a @ k) @ b"
    by blast
  with 1 2 have "fst (run_state (PerformPostUpgradeTasks_errs e cfg v dryRun) h) = a @ k @ b"
    by simp
  then show ?thesis unfolding k_def by blast
qed

text \<open>
  C7. The kubelet directory is a fresh temporary directory in a dry run and the fixed
  directory otherwise. When the directory cannot be resolved, its error is appended to
  \<^verbatim>\<open>errs\<close> and the download is skipped: the only call of the block is the one that
  failed. When the directory resolves, the download is attempted there; its failure is
  appended, wrapped, unless it is "not found" in a dry run, and then, as after a download
  that succeeded, nothing is appended. Whatever the block appends is part of the errors of
  the whole run, and the run goes on: all the unconditional steps are still made.
\<close>

theorem kubelet_config_failures_are_appended:
  "(let resolved = fst (run_state (getKubeletDir e dryRun) h);
        h1 = snd (run_state (getKubeletDir e dryRun) h);
        block = run_state (kubeletConfigSteps e v dryRun errs) h
    in resolved = (if dryRun then returns_dir e h (TempDir [] ''kubeadm-upgrade-dryrun'')
                   else Inr (KubeletRunDirectory (kubeadmconstants e)))
     \<and> (\<forall>err. resolved = Inl err \<longrightarrow>
           block = (errs @ [err], h @ [TempDir [] ''kubeadm-upgrade-dryrun'']))
     \<and> (\<forall>dir. resolved = Inr dir \<longrightarrow>
           snd block = h1 @ [DownloadConfig v dir]
           \<and> (returns_error e h1 (DownloadConfig v dir) = None \<longrightarrow> fst block = errs)
           \<and> (\<forall>er. returns_error e h1 (DownloadConfig v dir) = Some er \<longrightarrow>
                 fst block =
                   (if IsNotFound er \<and> dryRun then errs
                    else errs @ [Errorf
                      ''error downloading kubelet configuration from the ConfigMap: '' er]))))
   \<and> (\<exists>a b. fst (run_state (PerformPostUpgradeTasks_errs e cfg v dryRun) h) =
          a @ fst (run_state (kubeletConfigSteps e v dryRun [])
                     (h @ [UploadConfiguration, CreateConfigMap])) @ b)
   \<and> filter is_step (drop (length h)
        (snd (run_state (PerformPostUpgradeTasks_errs e cfg v dryRun) h))) =
         [UploadConfiguration, CreateConfigMap,
          AnnotateCRISocket (NodeRegistration_Name cfg) (NodeRegistration_CRISocket cfg),
          AllowBootstrapTokensToPostCSRs, AutoApproveNodeBootstrapTokens,
          AutoApproveNodeCertificateRotation, CreateClusterInfoRBACRules,
          EnsureDNSAddon, EnsureProxyAddon]"
proof -
  have block: "(let resolved = fst (run_state (getKubeletDir e dryRun) h);
        h1 = snd (run_state (getKubeletDir e dryRun) h);
        block = run_state (kubeletConfigSteps e v dryRun errs) h
    in resolved = (if dryRun then returns_dir e h (TempDir [] ''kubeadm-upgrade-dryrun'')
                   else Inr (KubeletRunDirectory (kubeadmconstants e)))
     \<and> (\<forall>err. resolved = Inl err \<longrightarrow>
           block = (errs @ [err], h @ [TempDir [] ''kubeadm-upgrade-dryrun'']))
     \<and> (\<forall>dir. resolved = Inr dir \<longrightarrow>
           snd block = h1 @ [DownloadConfig v dir]
           \<and> (returns_error e h1 (DownloadConfig v dir) = None \<longrightarrow> fst block = errs)
           \<and> (\<forall>er. returns_error e h1 (DownloadConfig v dir) = Some er \<longrightarrow>
                 fst block =
                   (if IsNotFound er \<and> dryRun then errs
                    else errs @ [Errorf
                      ''error downloading kubelet configuration from the ConfigMap: '' er]))))"
    by (cases dryRun) (simp_all add: run_kubeletConfigSteps run_getKubeletDir Let_def)
  from PerformPostUpgradeTasks_errs_steps [of e cfg v dryRun h] obtain new t where
    "run_state (PerformPostUpgradeTasks_errs e cfg v dryRun) h = (new, h @ t)"
    "filter is_step t =
         [UploadConfiguration, CreateConfigMap,
          AnnotateCRISocket (NodeRegistration_Name cfg) (NodeRegistration_CRISocket cfg),
          AllowBootstrapTokensToPostCSRs, AutoApproveNodeBootstrapTokens,
          AutoApproveNodeCertificateRotation, CreateClusterInfoRBACRules,
          EnsureDNSAddon, EnsureProxyAddon]"
    by blast
  then have steps: "filter is_step (drop (length h)
        (snd (run_state (PerformPostUpgradeTasks_errs e cfg v dryRun) h))) =
         [UploadConfiguration, CreateConfigMap,
          AnnotateCRISocket (NodeRegistration_Name cfg) (NodeRegistration_CRISocket cfg),
          AllowBootstrapTokensToPostCSRs, AutoApproveNodeBootstrapTokens,
          AutoApproveNodeCertificateRotation, CreateClusterInfoRBACRules,
          EnsureDNSAddon, EnsureProxyAddon]"
    by simp
  from block kubelet_errors_reach_the_result [of e cfg v dryRun h] steps
  show ?thesis by blast
qed

theorem kubelet_config_failures_are_appended_witness:
  "run_state (kubeletConfigSteps
       ((quiet_env 0 False)\<lparr> returns_dir := (\<lambda>h c. Inl (External False ''no temporary directory'')) \<rparr>)
       ''v1.11.0'' True []) []
     = ([External False ''no temporary directory''], [TempDir [] ''kubeadm-upgrade-dryrun''])
   \<and> run_state (kubeletConfigSteps
       ((quiet_env 0 False)\<lparr> returns_error := (\<lambda>h c. Some (External True ''configmap not found'')) \<rparr>)
       ''v1.11.0'' True []) []
     = ([], [TempDir [] ''kubeadm-upgrade-dryrun'',
             DownloadConfig ''v1.11.0'' ''/tmp/kubeadm-upgrade-dryrun0''])
   \<and> run_state (kubeletConfigSteps
       ((quiet_env 0 False)\<lparr> returns_error := (\<lambda>h c. Some (External True ''configmap not found'')) \<rparr>)
       ''v1.11.0'' False []) []
     = ([ErrorString
          ''error downloading kubelet configuration from the ConfigMap: configmap not found''],
        [DownloadConfig ''v1.11.0'' ''/var/lib/kubelet''])
   \<and> run_state (kubeletConfigSteps
       ((quiet_env 0 False)\<lparr> returns_error := (\<lambda>h c. Some (External False ''forbidden'')) \<rparr>)
       ''v1.11.0'' True []) []
     = ([ErrorString ''error downloading kubelet configuration from the ConfigMap: forbidden''],
        [TempDir [] ''kubeadm-upgrade-dryrun'',
         DownloadConfig ''v1.11.0'' ''/tmp/kubeadm-upgrade-dryrun0''])
   \<and> run_state (kubeletConfigSteps (quiet_env 0 False) ''v1.11.0'' False []) []
     = ([], [DownloadConfig ''v1.11.0'' ''/var/lib/kubelet''])"
  using
    kubelet_config_failures_are_appended
      [of "(quiet_env 0 False)\<lparr> returns_dir := (\<lambda>h c. Inl (External False ''no temporary directory'')) \<rparr>"
          True "[]" "''v1.11.0''" "[]" cfg0]
    kubelet_config_failures_are_appended
      [of "(quiet_env 0 False)\<lparr> returns_error := (\<lambda>h c. Some (External True ''configmap not found'')) \<rparr>"
          True "[]" "''v1.11.0''" "[]" cfg0]
    kubelet_config_failures_are_appended
      [of "(quiet_env 0 False)\<lparr> returns_error := (\<lambda>h c. Some (External True ''configmap not found'')) \<rparr>"
          False "[]" "''v1.11.0''" "[]" cfg0]
    kubelet_config_failures_are_appended
      [of "(quiet_env 0 False)\<lparr> returns_error := (\<lambda>h c. Some (External False ''forbidden'')) \<rparr>"
          True "[]" "''v1.11.0''" "[]" cfg0]
    kubelet_config_failures_are_appended [of "quiet_env 0 False" False "[]" "''v1.11.0''" "[]" cfg0]
  by (simp add: run_kubeletConfigSteps run_getKubeletDir Let_def kubeadm_constants_def Errorf_def)

subsection \<open>The backup of the certificate and key\<close>

lemma dir_exists_later: "dir_exists e (rev h) p \<Longrightarrow> dir_exists e (rev (h @ t)) p"
  by (induction t rule: rev_induct) (simp_all del: append_assoc add: append_assoc [symmetric])

lemma dir_exists_created:
  "returns_error e h (Mkdir p m) = None \<Longrightarrow> dir_exists e (rev (h @ [Mkdir p m])) p"
  by simp

lemma run_backupAPIServerCertAndKey:
  "run_state (backupAPIServerCertAndKey e dir) h =
     (let subDir = filepath_Join dir ''expired'';
          h1 = h @ [Mkdir subDir 502]
      in if dir_exists e (rev h) subDir
         then (Some (ErrorString (''failed to created backup directory '' @ subDir @
                 '': mkdir '' @ subDir @ '': file exists'')), h1)
         else case returns_error e h (Mkdir subDir 502) of
                Some er \<Rightarrow> (Some (ErrorString
                  (''failed to created backup directory '' @ subDir @ '': '' @ Error er)), h1)
              | None \<Rightarrow> run_state (moveFiles e
                  (AList.update
                    (filepath_Join dir (APIServerKeyName (kubeadmconstants e)))
                    (filepath_Join subDir (APIServerKeyName (kubeadmconstants e)))
                    (AList.update
                      (filepath_Join dir (APIServerCertName (kubeadmconstants e)))
                      (filepath_Join subDir (APIServerCertName (kubeadmconstants e)))
                      []))) h1)"
  by (simp add: backupAPIServerCertAndKey_def Let_def split: option.splits)

lemma run_apiServerCertSteps:
  "run_state (apiServerCertSteps e cfg errs) h =
     (let certDir = DefaultCertificatesDir (kubeadmconstants e);
          should = run_state (shouldBackupAPIServerCertAndKey e certDir) h;
          backup = run_state (backupAPIServerCertAndKey e certDir) (snd should)
      in case fst should of
           Inl err \<Rightarrow> (errs, snd should @ [Printf
             (''[postupgrade] WARNING: failed to determine to backup kube-apiserver cert and key: ''
               @ Error err)])
         | Inr b \<Rightarrow>
             if b then
               (let warned = (case fst backup of
                      Some er \<Rightarrow> snd backup @ [Printf
                        (''[postupgrade] WARNING: failed to backup kube-apiserver cert and key: ''
                          @ Error er)]
                    | None \<Rightarrow> snd backup)
                in (appendErr errs (returns_error e warned CreateAPIServerCertAndKeyFiles),
                    warned @ [CreateAPIServerCertAndKeyFiles]))
             else (errs, snd should))"
  by (simp add: apiServerCertSteps_def Let_def split_beta split: sum.splits option.splits)

text \<open>
  C10. When the sub-directory "expired" of the certificate directory exists,
  \<^verbatim>\<open>backupAPIServerCertAndKey\<close> returns the error of \<^verbatim>\<open>os.Mkdir\<close>, wrapped,
  and its only call is that \<^verbatim>\<open>os.Mkdir\<close>: no file is moved. A backup that created
  the directory leaves it behind, so the backup is not idempotent: after a backup that
  returned nil, and after any backup that got past \<^verbatim>\<open>os.Mkdir\<close>, the next backup
  of the same directory is refused in the same way. At the orchestrator the refusal is
  printed as a warning, the new certificate and key are still created, and only an error
  of that creation is appended to \<^verbatim>\<open>errs\<close>.
\<close>

theorem backup_fails_when_expired_exists:
  "(let subDir = filepath_Join dir ''expired'';
        refused = Some (ErrorString (''failed to created backup directory '' @ subDir @
                    '': mkdir '' @ subDir @ '': file exists''));
        first = run_state (backupAPIServerCertAndKey e dir) h;
        second = run_state (backupAPIServerCertAndKey e dir) (snd first)
    in (dir_exists e (rev h) subDir \<longrightarrow> first = (refused, h @ [Mkdir subDir 502]))
     \<and> (dir_exists e (rev h) subDir \<or> returns_error e h (Mkdir subDir 502) = None \<longrightarrow>
          second = (refused, snd first @ [Mkdir subDir 502]))
     \<and> (fst first = None \<longrightarrow> second = (refused, snd first @ [Mkdir subDir 502])))
   \<and> (let certDir = DefaultCertificatesDir (kubeadmconstants e);
           subDir = filepath_Join certDir ''expired'';
           should = run_state (shouldBackupAPIServerCertAndKey e certDir) h;
           warned = snd should @ [Mkdir subDir 502, Printf
             (''[postupgrade] WARNING: failed to backup kube-apiserver cert and key: '' @
              ''failed to created backup directory '' @ subDir @
              '': mkdir '' @ subDir @ '': file exists'')]
       in fst should = Inr True \<and> dir_exists e (rev (snd should)) subDir \<longrightarrow>
            run_state (apiServerCertSteps e cfg errs) h =
              (appendErr errs (returns_error e warned CreateAPIServerCertAndKeyFiles),
               warned @ [CreateAPIServerCertAndKeyFiles]))"
proof -
  define subDir where "subDir = filepath_Join dir ''expired''"
  define refused where "refused = Some (ErrorString (''failed to created backup directory '' @
    subDir @ '': mkdir '' @ subDir @ '': file exists''))"
  define first where "first = run_state (backupAPIServerCertAndKey e dir) h"
  have exists: "run_state (backupAPIServerCertAndKey e dir) h' = (refused, h' @ [Mkdir subDir 502])"
    if "dir_exists e (rev h') subDir" for h'
    using that by (simp add: run_backupAPIServerCertAndKey Let_def subDir_def refused_def)
  have after: "dir_exists e (rev (snd first)) subDir"
    if "dir_exists e (rev h) subDir \<or> returns_error e h (Mkdir subDir 502) = None"
  proof (cases "dir_exists e (rev h) subDir")
    case True
    from exists [OF True] have "snd first = h @ [Mkdir subDir 502]"
      by (simp add: first_def)
    with True show ?thesis by simp
  next
    case False
    with that have ok: "returns_error e h (Mkdir subDir 502) = None" by simp
    from only_callsD [OF only_calls_moveFiles] obtain t where
      "snd (run_state (moveFiles e
                  (AList.update
                    (filepath_Join dir (APIServerKeyName (kubeadmconstants e)))
                    (filepath_Join subDir (APIServerKeyName (kubeadmconstants e)))
                    (AList.update
                      (filepath_Join dir (APIServerCertName (kubeadmconstants e)))
                      (filepath_Join subDir (APIServerCertName (kubeadmconstants e)))
                      []))) (h @ [Mkdir subDir 502])) = (h @ [Mkdir subDir 502]) @ t"
      by blast
    with False ok have "snd first = (h @ [Mkdir subDir 502]) @ t"
      by (simp add: first_def run_backupAPIServerCertAndKey Let_def subDir_def)
    moreover from ok have "dir_exists e (rev (h @ [Mkdir subDir 502])) subDir"
      by (rule dir_exists_created)
    ultimately show ?thesis
      using dir_exists_later by metis
  qed
  have got_past: "dir_exists e (rev h) subDir \<or> returns_error e h (Mkdir subDir 502) = None"
    if "fst first = None"
    using that
    by (auto simp add: first_def run_backupAPIServerCertAndKey Let_def subDir_def
          split: if_splits option.splits)
  have backup: "(dir_exists e (rev h) subDir \<longrightarrow> first = (refused, h @ [Mkdir subDir 502]))
     \<and> (dir_exists e (rev h) subDir \<or> returns_error e h (Mkdir subDir 502) = None \<longrightarrow>
          run_state (backupAPIServerCertAndKey e dir) (snd first)
            = (refused, snd first @ [Mkdir subDir 502]))
     \<and> (fst first = None \<longrightarrow>
          run_state (backupAPIServerCertAndKey e dir) (snd first)
            = (refused, snd first @ [Mkdir subDir 502]))"
    using exists [of h] exists [OF after] got_past
    by (auto simp add: first_def)
  have warning: "(let certDir = DefaultCertificatesDir (kubeadmconstants e);
           subDir = filepath_Join certDir ''expired'';
           should = run_state (shouldBackupAPIServerCertAndKey e certDir) h;
           warned = snd should @ [Mkdir subDir 502, Printf
             (''[postupgrade] WARNING: failed to backup kube-apiserver cert and key: '' @
              ''failed to created backup directory '' @ subDir @
              '': mkdir '' @ subDir @ '': file exists'')]
       in fst should = Inr True \<and> dir_exists e (rev (snd should)) subDir \<longrightarrow>
            run_state (apiServerCertSteps e cfg errs) h =
              (appendErr errs (returns_error e warned CreateAPIServerCertAndKeyFiles),
               warned @ [CreateAPIServerCertAndKeyFiles]))"
    by (simp add: run_apiServerCertSteps run_backupAPIServerCertAndKey Let_def)
  from backup warning show ?thesis
    unfolding Let_def subDir_def refused_def first_def by blast
qed

theorem backup_fails_when_expired_exists_witness:
  "dir_exists expired_exists_env (rev []) (filepath_Join ''/etc/kubernetes/pki'' ''expired'')
   \<and> run_state (backupAPIServerCertAndKey expired_exists_env ''/etc/kubernetes/pki'') []
     = (Some (ErrorString (''failed to created backup directory /etc/kubernetes/pki/expired: '' @
                ''mkdir /etc/kubernetes/pki/expired: file exists'')),
        [Mkdir ''/etc/kubernetes/pki/expired'' 502])
   \<and> run_state (backupAPIServerCertAndKey (quiet_env 0 False) ''/etc/kubernetes/pki'') []
     = (None,
        [Mkdir ''/etc/kubernetes/pki/expired'' 502,
         Rename ''/etc/kubernetes/pki/apiserver.crt'' ''/etc/kubernetes/pki/expired/apiserver.crt'',
         Rename ''/etc/kubernetes/pki/apiserver.key'' ''/etc/kubernetes/pki/expired/apiserver.key''])
   \<and> run_state (backupAPIServerCertAndKey (quiet_env 0 False) ''/etc/kubernetes/pki'')
        (snd (run_state (backupAPIServerCertAndKey (quiet_env 0 False) ''/etc/kubernetes/pki'') []))
     = (Some (ErrorString (''failed to created backup directory /etc/kubernetes/pki/expired: '' @
                ''mkdir /etc/kubernetes/pki/expired: file exists'')),
        [Mkdir ''/etc/kubernetes/pki/expired'' 502,
         Rename ''/etc/kubernetes/pki/apiserver.crt'' ''/etc/kubernetes/pki/expired/apiserver.crt'',
         Rename ''/etc/kubernetes/pki/apiserver.key'' ''/etc/kubernetes/pki/expired/apiserver.key'',
         Mkdir ''/etc/kubernetes/pki/expired'' 502])
   \<and> fst (run_state (shouldBackupAPIServerCertAndKey expired_exists_env ''/etc/kubernetes/pki'') [])
     = Inr True
   \<and> run_state (apiServerCertSteps expired_exists_env cfg0 []) []
     = ([], [CertsFromFile ''/etc/kubernetes/pki/apiserver.crt'', Now,
             Mkdir ''/etc/kubernetes/pki/expired'' 502,
             Printf (''[postupgrade] WARNING: failed to backup kube-apiserver cert and key: '' @
               ''failed to created backup directory /etc/kubernetes/pki/expired: '' @
               ''mkdir /etc/kubernetes/pki/expired: file exists''),
             CreateAPIServerCertAndKeyFiles])"
proof -
  have moved: "run_state (backupAPIServerCertAndKey (quiet_env 0 False) ''/etc/kubernetes/pki'') []
     = (None,
        [Mkdir ''/etc/kubernetes/pki/expired'' 502,
         Rename ''/etc/kubernetes/pki/apiserver.crt'' ''/etc/kubernetes/pki/expired/apiserver.crt'',
         Rename ''/etc/kubernetes/pki/apiserver.key'' ''/etc/kubernetes/pki/expired/apiserver.key''])"
    by (simp add: run_backupAPIServerCertAndKey Let_def filepath_Join_def kubeadm_constants_def
          moveFiles_def range_entries_def)
  have old: "fst (run_state
      (shouldBackupAPIServerCertAndKey expired_exists_env ''/etc/kubernetes/pki'') []) = Inr True"
    by (simp add: shouldBackupAPIServerCertAndKey_def expired_exists_env_def Let_def
          Sub_def maxDuration_def minDuration_def expiry_value
          Hour_def Minute_def Second_def Nanosecond_def)
  have certdir: "DefaultCertificatesDir (kubeadmconstants expired_exists_env) = ''/etc/kubernetes/pki''"
    by (simp add: expired_exists_env_def kubeadm_constants_def)
  have there: "dir_exists expired_exists_env (rev h) ''/etc/kubernetes/pki/expired''" for h
    using dir_exists_later [of expired_exists_env "[]" "''/etc/kubernetes/pki/expired''" h]
    by (simp add: expired_exists_env_def)
  from backup_fails_when_expired_exists
         [of "''/etc/kubernetes/pki''" expired_exists_env "[]" cfg0 "[]"]
       backup_fails_when_expired_exists
         [of "''/etc/kubernetes/pki''" "quiet_env 0 False" "[]" cfg0 "[]"]
       moved old there
  show ?thesis
    by (simp add: Let_def filepath_Join_def certdir
          shouldBackupAPIServerCertAndKey_def expired_exists_env_def kubeadm_constants_def
          Sub_def maxDuration_def minDuration_def expiry_value
          Hour_def Minute_def Second_def Nanosecond_def)
qed

subsection \<open>Warnings\<close>

lemma TryRunCommand_first_success:
  "fst (run_state f h) = None \<Longrightarrow> fst (run_state (TryRunCommand f (Suc n)) h) = None"
  by (simp add: split_beta)

lemma fst_then_steps_unchanged:
  assumes "\<And>errs h. fst (run_state (m1 errs) h) = errs"
    and "\<And>errs h. fst (run_state (m2 errs) h) = errs"
  shows "fst (run_state (then_steps m1 m2 errs) h) = errs"
  by (simp add: run_then_steps assms)

lemma run_without_failure_returns_nil:
  assumes err: "\<And>h c. \<not> is_fs c \<Longrightarrow> returns_error e h c = None"
    and dir: "\<And>h c. \<exists>d. returns_dir e h c = Inr d"
    and dep: "\<And>h c. \<exists>d. returns_deployment e h c = Inr d \<and> 1 \<le> ReadyReplicas d"
  shows "fst (run_state (PerformPostUpgradeTasks e cfg v dryRun) h) = None"
proof -
  have simple: "fst (run_state (simple_step e w c errs) h) = errs" if "\<not> is_fs c" for w c errs h
    using err [OF that] by (simp add: simple_step_def)
  have kubelet: "fst (run_state (kubeletConfigSteps e v dryRun errs) h) = errs" for errs h
  proof -
    obtain d where "returns_dir e h (TempDir [] ''kubeadm-upgrade-dryrun'') = Inr d"
      using dir by blast
    then show ?thesis
      by (cases dryRun) (simp_all add: run_kubeletConfigSteps run_getKubeletDir Let_def err)
  qed
  have hosting: "fst (run_state (after_step (upgradeToSelfHosting e cfg dryRun) errs) h) = errs"
    for errs h
    by (simp add: after_step_def split_beta run_upgradeToSelfHosting Let_def err)
  have cert: "fst (run_state (apiServerCertSteps e cfg errs) h) = errs" for errs h
    by (simp add: run_apiServerCertSteps Let_def err split: sum.splits)
  have attempt: "fst (run_state (removeOldDNSDeployment_attempt e cfg) h) = None" for h
  proof -
    obtain d where "returns_deployment e h
        (GetDeployment (NamespaceSystem (kubeadmconstants e))
          (fst (dnsDeploymentNames (kubeadmconstants e) cfg))) = Inr d \<and> 1 \<le> ReadyReplicas d"
      using dep by blast
    then show ?thesis
      by (simp add: run_removeOldDNSDeployment_attempt Let_def err)
  qed
  have "fst (run_state (removeOldDNSDeploymentIfAnotherDNSIsUsed e cfg) h) = None" for h
    unfolding removeOldDNSDeploymentIfAnotherDNSIsUsed_def
    using TryRunCommand_first_success [OF attempt, of 9 h]
    by (simp add: eval_nat_numeral)
  then have dns: "fst (run_state
      (if \<not> dryRun then after_step (removeOldDNSDeploymentIfAnotherDNSIsUsed e cfg) errs
       else State_Monad.return errs) h) = errs" for errs h
    by (simp add: after_step_def split_beta)
  have "fst (run_state (PerformPostUpgradeTasks_errs e cfg v dryRun) h) = []"
    unfolding PerformPostUpgradeTasks_errs_chain
    by (intro fst_then_steps_unchanged simple kubelet hosting cert dns) simp_all
  then show ?thesis
    by (simp add: PerformPostUpgradeTasks_def split_beta NewAggregate_def)
qed

text \<open>
  C8. When it cannot be determined whether to back up the certificate and key, a warning is
  printed and \<^verbatim>\<open>errs\<close> is left as it was. When the backup fails, a warning is printed,
  the new certificate and key are created all the same, and \<^verbatim>\<open>errs\<close> receives the
  error of that creation only, if there is one. Neither failure makes the run return an
  error: when every call other than \<^verbatim>\<open>os.Mkdir\<close> and \<^verbatim>\<open>os.Rename\<close> succeeds, the
  run returns nil, whatever the reading of the certificate gives and however the backup ends.
\<close>

theorem backup_failures_are_warnings:
  "(let certDir = DefaultCertificatesDir (kubeadmconstants e);
        should = run_state (shouldBackupAPIServerCertAndKey e certDir) h;
        backup = run_state (backupAPIServerCertAndKey e certDir) (snd should);
        block = run_state (apiServerCertSteps e cfg errs) h
    in (\<forall>err. fst should = Inl err \<longrightarrow>
          block = (errs, snd should @ [Printf
            (''[postupgrade] WARNING: failed to determine to backup kube-apiserver cert and key: ''
              @ Error err)]))
     \<and> (\<forall>err. fst should = Inr True \<and> fst backup = Some err \<longrightarrow>
          (let warned = snd backup @ [Printf
                 (''[postupgrade] WARNING: failed to backup kube-apiserver cert and key: ''
                   @ Error err)]
           in block = (appendErr errs (returns_error e warned CreateAPIServerCertAndKeyFiles),
                       warned @ [CreateAPIServerCertAndKeyFiles]))))
   \<and> ((\<forall>h c. \<not> is_fs c \<longrightarrow> returns_error e h c = None)
        \<and> (\<forall>h c. \<exists>d. returns_dir e h c = Inr d)
        \<and> (\<forall>h c. \<exists>d. returns_deployment e h c = Inr d \<and> 1 \<le> ReadyReplicas d)
       \<longrightarrow> fst (run_state (PerformPostUpgradeTasks e cfg v dryRun) h) = None)"
proof -
  have block: "(let certDir = DefaultCertificatesDir (kubeadmconstants e);
        should = run_state (shouldBackupAPIServerCertAndKey e certDir) h;
        backup = run_state (backupAPIServerCertAndKey e certDir) (snd should);
        block = run_state (apiServerCertSteps e cfg errs) h
    in (\<forall>err. fst should = Inl err \<longrightarrow>
          block = (errs, snd should @ [Printf
            (''[postupgrade] WARNING: failed to determine to backup kube-apiserver cert and key: ''
              @ Error err)]))
     \<and> (\<forall>err. fst should = Inr True \<and> fst backup = Some err \<longrightarrow>
          (let warned = snd backup @ [Printf
                 (''[postupgrade] WARNING: failed to backup kube-apiserver cert and key: ''
                   @ Error err)]
           in block = (appendErr errs (returns_error e warned CreateAPIServerCertAndKeyFiles),
                       warned @ [CreateAPIServerCertAndKeyFiles]))))"
    by (simp add: run_apiServerCertSteps Let_def)
  have run: "(\<forall>h c. \<not> is_fs c \<longrightarrow> returns_error e h c = None)
        \<and> (\<forall>h c. \<exists>d. returns_dir e h c = Inr d)
        \<and> (\<forall>h c. \<exists>d. returns_deployment e h c = Inr d \<and> 1 \<le> ReadyReplicas d)
       \<longrightarrow> fst (run_state (PerformPostUpgradeTasks e cfg v dryRun) h) = None"
    using run_without_failure_returns_nil [of e cfg v dryRun h] by blast
  from block run show ?thesis by blast
qed

theorem backup_failures_are_warnings_witness:
  "run_state (PerformPostUpgradeTasks unreadable_env cfg0 ''v1.11.0'' True) []
     = (None,
        [UploadConfiguration, CreateConfigMap, TempDir [] ''kubeadm-upgrade-dryrun'',
         DownloadConfig ''v1.11.0'' ''/tmp/kubeadm-upgrade-dryrun0'',
         AnnotateCRISocket ''master'' ''/var/run/dockershim.sock'',
         AllowBootstrapTokensToPostCSRs, AutoApproveNodeBootstrapTokens,
         AutoApproveNodeCertificateRotation, CreateClusterInfoRBACRules,
         CertsFromFile ''/etc/kubernetes/pki/apiserver.crt'',
         Printf (''[postupgrade] WARNING: failed to determine to backup kube-apiserver cert and key: ''
           @ ''couldn't load the certificate file /etc/kubernetes/pki/apiserver.crt: ''
           @ ''permission denied''),
         EnsureDNSAddon, EnsureProxyAddon])
   \<and> fst (run_state (PerformPostUpgradeTasks expired_exists_env cfg0 ''v1.11.0'' False) []) = None
   \<and> run_state (apiServerCertSteps expired_exists_env cfg0 []) []
     = ([], [CertsFromFile ''/etc/kubernetes/pki/apiserver.crt'', Now,
             Mkdir ''/etc/kubernetes/pki/expired'' 502,
             Printf (''[postupgrade] WARNING: failed to backup kube-apiserver cert and key: '' @
               ''failed to created backup directory /etc/kubernetes/pki/expired: '' @
               ''mkdir /etc/kubernetes/pki/expired: file exists''),
             CreateAPIServerCertAndKeyFiles])"
proof -
  have quiet: "\<forall>h c. \<not> is_fs c \<longrightarrow> returns_error unreadable_env h c = None"
    "\<forall>h c. \<exists>d. returns_dir unreadable_env h c = Inr d"
    "\<forall>h c. \<exists>d. returns_deployment unreadable_env h c = Inr d \<and> 1 \<le> ReadyReplicas d"
    "\<forall>h c. \<not> is_fs c \<longrightarrow> returns_error expired_exists_env h c = None"
    "\<forall>h c. \<exists>d. returns_dir expired_exists_env h c = Inr d"
    "\<forall>h c. \<exists>d. returns_deployment expired_exists_env h c = Inr d \<and> 1 \<le> ReadyReplicas d"
    by (simp_all add: unreadable_env_def expired_exists_env_def)
  have first: "run_state (PerformPostUpgradeTasks unreadable_env cfg0 ''v1.11.0'' True) []
     = (None,
        [UploadConfiguration, CreateConfigMap, TempDir [] ''kubeadm-upgrade-dryrun'',
         DownloadConfig ''v1.11.0'' ''/tmp/kubeadm-upgrade-dryrun0'',
         AnnotateCRISocket ''master'' ''/var/run/dockershim.sock'',
         AllowBootstrapTokensToPostCSRs, AutoApproveNodeBootstrapTokens,
         AutoApproveNodeCertificateRotation, CreateClusterInfoRBACRules,
         CertsFromFile ''/etc/kubernetes/pki/apiserver.crt'',
         Printf (''[postupgrade] WARNING: failed to determine to backup kube-apiserver cert and key: ''
           @ ''couldn't load the certificate file /etc/kubernetes/pki/apiserver.crt: ''
           @ ''permission denied''),
         EnsureDNSAddon, EnsureProxyAddon])"
    by (simp add: PerformPostUpgradeTasks_def PerformPostUpgradeTasks_errs_def
          kubeletConfigSteps_def getKubeletDir_def run_upgradeToSelfHosting
          apiServerCertSteps_def shouldBackupAPIServerCertAndKey_def Let_def
          unreadable_env_def kubeadm_constants_def cfg0_def filepath_Join_def NewAggregate_def)
  have there: "dir_exists expired_exists_env (rev h) ''/etc/kubernetes/pki/expired''" for h
    using dir_exists_later [of expired_exists_env "[]" "''/etc/kubernetes/pki/expired''" h]
    by (simp add: expired_exists_env_def)
  have block: "run_state (apiServerCertSteps expired_exists_env cfg0 []) []
     = ([], [CertsFromFile ''/etc/kubernetes/pki/apiserver.crt'', Now,
             Mkdir ''/etc/kubernetes/pki/expired'' 502,
             Printf (''[postupgrade] WARNING: failed to backup kube-apiserver cert and key: '' @
               ''failed to created backup directory /etc/kubernetes/pki/expired: '' @
               ''mkdir /etc/kubernetes/pki/expired: file exists''),
             CreateAPIServerCertAndKeyFiles])"
    using there
    by (simp add: run_apiServerCertSteps run_backupAPIServerCertAndKey Let_def filepath_Join_def
          shouldBackupAPIServerCertAndKey_def expired_exists_env_def kubeadm_constants_def
          Sub_def maxDuration_def minDuration_def expiry_value
          Hour_def Minute_def Second_def Nanosecond_def)
  from backup_failures_are_warnings [of unreadable_env "[]" cfg0 "[]" "''v1.11.0''" True]
       backup_failures_are_warnings [of expired_exists_env "[]" cfg0 "[]" "''v1.11.0''" False]
       quiet first block
  show ?thesis by blast
qed

subsection \<open>Moving files\<close>

lemma mset_range_entries: "mset (range_entries e h m) = mset m"
  by (simp add: range_entries_def)

lemma errlist_Nil_iff [simp]: "(errlist r = []) = (r = None)"
  by (cases r) simp_all

lemma rename_of_pair [simp]: "rename_of (a, b) = Rename a b"
  by (simp add: rename_of_def)

lemma run_rollbackFiles_loop:
  "run_state (rollbackFiles_loop e xs errs) h =
     (errs @ errors_of e h (map rename_of xs), h @ map rename_of xs)"
proof (induction xs arbitrary: errs h)
  case Nil
  show ?case by simp
next
  case (Cons x xs)
  obtain a b where x: "x = (a, b)" by (cases x)
  show ?case
    by (simp add: x Cons.IH appendErr_errlist)
qed

lemma run_rollbackFiles:
  "run_state (rollbackFiles e files er) h =
     (ErrorString (''couldn't move these files: '' @ fmt_map files @ ''. Got errors: '' @
        Error (Aggregate (er # errors_of e h (map rename_of (range_entries e h files))))),
      h @ map rename_of (range_entries e h files))"
  by (simp add: rollbackFiles_def run_rollbackFiles_loop NewAggregate_def)

lemma update_fresh: "k \<notin> fst ` set al \<Longrightarrow> AList.update k v al = al @ [(k, v)]"
  by (induction al) auto

lemma moveFiles_loop_nil_iff:
  "(fst (run_state (moveFiles_loop e xs rec) h) = None)
     = (errors_of e h (map rename_of xs) = [])"
proof (induction xs arbitrary: rec h)
  case Nil
  show ?case by simp
next
  case (Cons x xs)
  obtain a b where x: "x = (a, b)" by (cases x)
  show ?case
  proof (cases "returns_error e h (Rename a b)")
    case None
    then show ?thesis
      by (simp add: x Cons.IH)
  next
    case (Some er)
    then show ?thesis
      by (simp add: x split_beta)
  qed
qed

lemma moveFiles_loop_all_moved:
  "errors_of e h (map rename_of xs) = [] \<Longrightarrow>
     snd (run_state (moveFiles_loop e xs rec) h) = h @ map rename_of xs"
proof (induction xs arbitrary: rec h)
  case Nil
  show ?case by simp
next
  case (Cons x xs)
  obtain a b where x: "x = (a, b)" by (cases x)
  from Cons.prems have ok: "returns_error e h (Rename a b) = None"
    and rest: "errors_of e (h @ [Rename a b]) (map rename_of xs) = []"
    by (simp_all add: x)
  from Cons.IH [OF rest] ok show ?case
    by (simp add: x)
qed

lemma moveFiles_loop_moved:
  assumes "errors_of e h (map rename_of xs) = []"
    and "distinct (map snd xs)"
    and "snd ` set xs \<inter> fst ` set rec = {}"
  shows "run_state (moveFiles_loop e (xs @ rest) rec) h =
     run_state (moveFiles_loop e rest (rec @ map prod.swap xs)) (h @ map rename_of xs)"
  using assms
proof (induction xs arbitrary: rec h)
  case Nil
  show ?case by simp
next
  case (Cons x xs)
  obtain a b where x: "x = (a, b)" by (cases x)
  from Cons.prems(1) have ok: "returns_error e h (Rename a b) = None"
    and later: "errors_of e (h @ [Rename a b]) (map rename_of xs) = []"
    by (simp_all add: x)
  from Cons.prems(3) have fresh: "b \<notin> fst ` set rec"
    by (auto simp add: x)
  from Cons.prems(2) have dist: "distinct (map snd xs)" and notin: "b \<notin> snd ` set xs"
    by (simp_all add: x)
  from Cons.prems(3) notin have disj: "snd ` set xs \<inter> fst ` set (rec @ [(b, a)]) = {}"
    by (auto simp add: x)
  have "run_state (moveFiles_loop e ((x # xs) @ rest) rec) h =
      run_state (moveFiles_loop e (xs @ rest) (rec @ [(b, a)])) (h @ [Rename a b])"
    using ok by (simp add: x update_fresh [OF fresh])
  also have "\<dots> = run_state (moveFiles_loop e rest ((rec @ [(b, a)]) @ map prod.swap xs))
      ((h @ [Rename a b]) @ map rename_of xs)"
    by (rule Cons.IH [OF later dist disj])
  finally show ?case
    by (simp add: x)
qed

text \<open>
  C3. A FileMoveSet is a map whose destinations are distinct, as its sources are. The files
  are visited in the order of the \<^verbatim>\<open>range\<close> loop. \<^verbatim>\<open>moveFiles\<close> returns nil
  exactly when every rename succeeds, and then it has made them all. When a rename fails
  after the moves \<open>done\<close> have succeeded, the calls that follow it are the renames of the
  destinations of \<open>done\<close> back to their sources, each of them once, in the order of the
  second \<^verbatim>\<open>range\<close> loop; and the error that is returned describes the aggregate of
  the first failure followed by the failures of those renames.
\<close>

theorem moveFiles_rolls_back:
  "(let order = range_entries e h files;
        ret = fst (run_state (moveFiles e files) h);
        h' = snd (run_state (moveFiles e files) h)
    in (ret = None) = (errors_of e h (map rename_of order) = [])
     \<and> (errors_of e h (map rename_of order) = [] \<longrightarrow> h' = h @ map rename_of order)
     \<and> (distinct (map snd files) \<longrightarrow>
          (\<forall>done from to rest er.
             order = done @ (from, to) # rest
             \<and> errors_of e h (map rename_of done) = []
             \<and> returns_error e (h @ map rename_of done) (Rename from to) = Some er
             \<longrightarrow> (let failed = h @ map rename_of done @ [Rename from to];
                      back = range_entries e failed (map prod.swap done)
                  in mset back = mset (map prod.swap done)
                   \<and> h' = failed @ map rename_of back
                   \<and> ret = Some (ErrorString
                       (''couldn't move these files: '' @ fmt_map (map prod.swap done) @
                        ''. Got errors: '' @
                        Error (Aggregate (er # errors_of e failed (map rename_of back)))))))))"
proof -
  define order where "order = range_entries e h files"
  have run: "run_state (moveFiles e files) h = run_state (moveFiles_loop e order []) h"
    by (simp add: moveFiles_def order_def)
  have nil: "(fst (run_state (moveFiles e files) h) = None)
      = (errors_of e h (map rename_of order) = [])"
    unfolding run by (rule moveFiles_loop_nil_iff)
  have all: "errors_of e h (map rename_of order) = [] \<longrightarrow>
      snd (run_state (moveFiles e files) h) = h @ map rename_of order"
    unfolding run by (simp add: moveFiles_loop_all_moved)
  have failing: "run_state (moveFiles e files) h =
      (Some (ErrorString
         (''couldn't move these files: '' @ fmt_map (map prod.swap done) @ ''. Got errors: '' @
          Error (Aggregate (er # errors_of e (h @ map rename_of done @ [Rename from to])
            (map rename_of (range_entries e (h @ map rename_of done @ [Rename from to])
               (map prod.swap done))))))),
       (h @ map rename_of done @ [Rename from to]) @
         map rename_of (range_entries e (h @ map rename_of done @ [Rename from to])
           (map prod.swap done)))"
    if dist: "distinct (map snd files)"
      and split: "order = done @ (from, to) # rest"
      and moved: "errors_of e h (map rename_of done) = []"
      and fails: "returns_error e (h @ map rename_of done) (Rename from to) = Some er"
    for "done" "from" to rest er
  proof -
    have "mset (map snd order) = mset (map snd files)"
      unfolding order_def by (simp add: mset_range_entries)
    with dist have "distinct (map snd order)"
      by (metis mset_eq_imp_distinct_iff)
    then have d: "distinct (map snd done)"
      by (simp add: split)
    have "run_state (moveFiles_loop e (done @ (from, to) # rest) []) h =
        run_state (moveFiles_loop e ((from, to) # rest) ([] @ map prod.swap done))
          (h @ map rename_of done)"
      by (rule moveFiles_loop_moved [OF moved d]) simp
    with fails show ?thesis
      by (simp add: run split run_rollbackFiles split_beta)
  qed
  have perm: "mset (range_entries e hf (map prod.swap done)) = mset (map prod.swap done)"
    for hf "done"
    by (rule mset_range_entries)
  from nil all failing perm show ?thesis
    unfolding Let_def order_def [symmetric]
    by (auto simp add: prod_eq_iff)
qed

theorem moveFiles_rolls_back_witness:
  "distinct (map snd [(''a'', ''x''), (''b'', ''y'')])
   \<and> run_state (moveFiles (quiet_env 0 False) [(''a'', ''x''), (''b'', ''y'')]) []
     = (None, [Rename ''a'' ''x'', Rename ''b'' ''y''])
   \<and> run_state (moveFiles (rename_fails_env [Rename ''b'' ''y''])
        [(''a'', ''x''), (''b'', ''y'')]) []
     = (Some (ErrorString
          ''couldn't move these files: map[x:a]. Got errors: permission denied''),
        [Rename ''a'' ''x'', Rename ''b'' ''y'', Rename ''x'' ''a''])
   \<and> run_state (moveFiles (rename_fails_env [Rename ''b'' ''y'', Rename ''x'' ''a''])
        [(''a'', ''x''), (''b'', ''y'')]) []
     = (Some (ErrorString
          ''couldn't move these files: map[x:a]. Got errors: [permission denied, permission denied]''),
        [Rename ''a'' ''x'', Rename ''b'' ''y'', Rename ''x'' ''a''])"
  using moveFiles_rolls_back [of "quiet_env 0 False" "[]" "[(''a'', ''x''), (''b'', ''y'')]"]
    moveFiles_rolls_back
      [of "rename_fails_env [Rename ''b'' ''y'']" "[]" "[(''a'', ''x''), (''b'', ''y'')]"]
    moveFiles_rolls_back
      [of "rename_fails_env [Rename ''b'' ''y'', Rename ''x'' ''a'']" "[]"
          "[(''a'', ''x''), (''b'', ''y'')]"]
  by (simp add: moveFiles_def range_entries_def rename_fails_env_def run_rollbackFiles
        fmt_map_def split_beta)

subsection \<open>Dry runs\<close>

lemma only_calls_dry_run:
  "only_calls (\<lambda>c. \<not> is_dns c) (PerformPostUpgradeTasks e cfg v True)"
proof -
  have k: "only_calls (\<lambda>c. \<not> is_dns c) (kubeletConfigSteps e v True errs)" for errs
    by (rule only_calls_mono [OF only_calls_kubeletConfigSteps]) simp
  have s: "only_calls (\<lambda>c. \<not> is_dns c) (upgradeToSelfHosting e cfg True)"
    by (rule only_calls_mono [OF only_calls_upgradeToSelfHosting]) simp
  have c: "only_calls (\<lambda>c. \<not> is_dns c) (apiServerCertSteps e cfg errs)" for errs
    by (rule only_calls_mono [OF only_calls_apiServerCertSteps]) simp
  show ?thesis
    unfolding PerformPostUpgradeTasks_def PerformPostUpgradeTasks_errs_def Let_def
    by (auto intro!: only_calls_bind only_calls_invoke only_calls_return k s c)
qed

text \<open>
  C2. In a dry run the step that swaps the DNS deployments is not attempted: no deployment
  is fetched and none is deleted, whatever the world. But the backup of the certificate and
  key does not look at \<^verbatim>\<open>dryRun\<close> (line 127 of the source says so: "TODO: Make sure
  this works in dry-run mode as well"): in the dry run below, where the certificate is 181
  days old, the directory of the backups is created, the certificate and the key are moved
  into it, and a new certificate and key are written.
\<close>

theorem dry_run_still_moves_the_certificate:
  "filter is_dns (drop (length h)
      (snd (run_state (PerformPostUpgradeTasks e cfg v True) h))) = []
   \<and> run_state (PerformPostUpgradeTasks (quiet_env (181 * (24 * Hour)) False) cfg0
        ''v1.11.0'' True) []
     = (None,
        [UploadConfiguration, CreateConfigMap, TempDir [] ''kubeadm-upgrade-dryrun'',
         DownloadConfig ''v1.11.0'' ''/tmp/kubeadm-upgrade-dryrun0'',
         AnnotateCRISocket ''master'' ''/var/run/dockershim.sock'',
         AllowBootstrapTokensToPostCSRs, AutoApproveNodeBootstrapTokens,
         AutoApproveNodeCertificateRotation, CreateClusterInfoRBACRules,
         CertsFromFile ''/etc/kubernetes/pki/apiserver.crt'', Now,
         Mkdir ''/etc/kubernetes/pki/expired'' 502,
         Rename ''/etc/kubernetes/pki/apiserver.crt'' ''/etc/kubernetes/pki/expired/apiserver.crt'',
         Rename ''/etc/kubernetes/pki/apiserver.key'' ''/etc/kubernetes/pki/expired/apiserver.key'',
         CreateAPIServerCertAndKeyFiles, EnsureDNSAddon, EnsureProxyAddon])"
proof -
  from only_callsD [OF only_calls_dry_run, of e cfg v h] obtain t where
    "snd (run_state (PerformPostUpgradeTasks e cfg v True) h) = h @ t"
    "list_all (\<lambda>c. \<not> is_dns c) t"
    by blast
  then have general: "filter is_dns (drop (length h)
      (snd (run_state (PerformPostUpgradeTasks e cfg v True) h))) = []"
    by (simp add: filter_empty_conv list_all_iff)
  have moved: "run_state (backupAPIServerCertAndKey (quiet_env now False)
        ''/etc/kubernetes/pki'') h0
     = (None, h0 @
        [Mkdir ''/etc/kubernetes/pki/expired'' 502,
         Rename ''/etc/kubernetes/pki/apiserver.crt'' ''/etc/kubernetes/pki/expired/apiserver.crt'',
         Rename ''/etc/kubernetes/pki/apiserver.key'' ''/etc/kubernetes/pki/expired/apiserver.key''])"
    if "\<not> dir_exists (quiet_env now False) (rev h0) ''/etc/kubernetes/pki/expired''"
    for h0 now
    using that
    by (simp add: run_backupAPIServerCertAndKey Let_def filepath_Join_def kubeadm_constants_def
          moveFiles_def range_entries_def)
  have run: "run_state (PerformPostUpgradeTasks (quiet_env (181 * (24 * Hour)) False) cfg0
        ''v1.11.0'' True) []
     = (None,
        [UploadConfiguration, CreateConfigMap, TempDir [] ''kubeadm-upgrade-dryrun'',
         DownloadConfig ''v1.11.0'' ''/tmp/kubeadm-upgrade-dryrun0'',
         AnnotateCRISocket ''master'' ''/var/run/dockershim.sock'',
         AllowBootstrapTokensToPostCSRs, AutoApproveNodeBootstrapTokens,
         AutoApproveNodeCertificateRotation, CreateClusterInfoRBACRules,
         CertsFromFile ''/etc/kubernetes/pki/apiserver.crt'', Now,
         Mkdir ''/etc/kubernetes/pki/expired'' 502,
         Rename ''/etc/kubernetes/pki/apiserver.crt'' ''/etc/kubernetes/pki/expired/apiserver.crt'',
         Rename ''/etc/kubernetes/pki/apiserver.key'' ''/etc/kubernetes/pki/expired/apiserver.key'',
         CreateAPIServerCertAndKeyFiles, EnsureDNSAddon, EnsureProxyAddon])"
    by (simp add: PerformPostUpgradeTasks_def PerformPostUpgradeTasks_errs_def
          kubeletConfigSteps_def getKubeletDir_def run_upgradeToSelfHosting
          run_apiServerCertSteps shouldBackupAPIServerCertAndKey_def moved Let_def
          kubeadm_constants_def cfg0_def filepath_Join_def NewAggregate_def
          Sub_def maxDuration_def minDuration_def expiry_value
          Hour_def Minute_def Second_def Nanosecond_def)
  from general run show ?thesis by blast
qed

subsection \<open>The order of a range loop\<close>

text \<open>
  The model of \<^verbatim>\<open>range\<close> leaves every order open: each arrangement of the entries
  of a map is the order of visit for some rank of the keys.
\<close>

lemma every_order_is_the_order_of_a_rank:
  assumes keys: "distinct (map fst m)" and perm: "mset ys = mset m"
  shows "\<exists>rank :: 'a \<Rightarrow> nat. sort_key (\<lambda>(k, v). rank k) m = ys"
proof -
  define rank where "rank k = (THE i. i < length ys \<and> fst (ys ! i) = k)" for k :: 'a
  define f where "f = (\<lambda>(k, v :: 'b). rank k)"
  from perm have "mset (map fst ys) = mset (map fst m)" by simp
  with keys have dy: "distinct (map fst ys)"
    by (metis mset_eq_imp_distinct_iff)
  have r: "rank (fst (ys ! i)) = i" if "i < length ys" for i
    unfolding rank_def
  proof (rule the_equality)
    from that show "i < length ys \<and> fst (ys ! i) = fst (ys ! i)" by simp
  next
    fix j
    assume "j < length ys \<and> fst (ys ! j) = fst (ys ! i)"
    with that dy show "j = i"
      by (metis length_map nth_eq_iff_index_eq nth_map)
  qed
  have ranks: "map f ys = [0..<length ys]"
    by (rule nth_equalityI) (simp_all add: f_def split_beta r)
  then have sy: "sorted (map f ys)" and iy: "distinct (map f ys)"
    by simp_all
  have same: "mset (map f (sort_key f m)) = mset (map f ys)"
    using perm by simp
  from same iy have "distinct (map f (sort_key f m))"
    by (metis mset_eq_imp_distinct_iff)
  moreover have "sorted (map f (sort_key f m))"
    by (rule sorted_sort_key)
  moreover from same have "set (map f (sort_key f m)) = set (map f ys)"
    by (metis set_mset_mset)
  ultimately have eq: "map f (sort_key f m) = map f ys"
    using sy iy by (intro sorted_distinct_set_unique)
  from perm have "set (sort_key f m) = set ys"
    by (metis set_mset_mset set_sort)
  moreover from iy have "inj_on f (set ys)"
    by (simp add: distinct_map)
  ultimately have "sort_key f m = ys"
    using eq by (metis inj_on_map_eq_map sup.idem)
  then have "sort_key (\<lambda>(k, v). rank k) m = ys"
    unfolding f_def .
  then show ?thesis by (rule exI [of _ rank])
qed

text \<open>
  Why the destinations have to be distinct: when two files go to the same destination, the
  entry of \<^verbatim>\<open>filesToRecover\<close> for that destination is overwritten, and the first of
  the two moves is not reversed. Here \<open>a\<close> and \<open>b\<close> are both moved to \<open>x\<close>, the move
  of \<open>c\<close> fails, and only \<open>x\<close> to \<open>b\<close> is undone.
\<close>

lemma repeated_destination_is_reversed_once:
  "run_state (moveFiles (rename_fails_env [Rename ''c'' ''y''])
      [(''a'', ''x''), (''b'', ''x''), (''c'', ''y'')]) []
     = (Some (ErrorString
          ''couldn't move these files: map[x:b]. Got errors: permission denied''),
        [Rename ''a'' ''x'', Rename ''b'' ''x'', Rename ''c'' ''y'', Rename ''x'' ''b''])"
  by (simp add: moveFiles_def range_entries_def rename_fails_env_def run_rollbackFiles
        fmt_map_def split_beta)

end
